theory Spec2Isabelle
  imports Complex_Main
begin

section \<open>Shuttle tracker: position prediction, tracking manager and replay engine\<close>

text \<open>
  A shallow embedding of the three Go source files of the repository: the geometry and
  prediction functions of package \<open>smooth\<close>, the \<open>SmoothTrackingManager\<close> of the same
  package, and the \<open>Spoofer\<close> (the replay engine) of package \<open>spoofer\<close>.
\<close>

subsection \<open>float64\<close>

text \<open>
  A Go \<open>float64\<close> is a finite number, one of the two infinities, or a NaN. The finite
  values are idealised as reals: rounding, overflow to an infinity and the sign of zero are
  not modelled (a zero is read as \<open>+0\<close>). The operations below follow IEEE-754 and the
  special cases documented for Go's package \<open>math\<close>; in particular a division by zero gives
  an infinity or a NaN, and every comparison with a NaN is false.
\<close>

datatype float64 = Fin real | PInf | NInf | NaN

fun fneg :: "float64 \<Rightarrow> float64" where
  "fneg (Fin x) = Fin (- x)"
| "fneg PInf = NInf"
| "fneg NInf = PInf"
| "fneg NaN = NaN"

fun fadd :: "float64 \<Rightarrow> float64 \<Rightarrow> float64" where
  "fadd (Fin x) (Fin y) = Fin (x + y)"
| "fadd NaN b = NaN"
| "fadd a NaN = NaN"
| "fadd PInf NInf = NaN"
| "fadd NInf PInf = NaN"
| "fadd PInf b = PInf"
| "fadd a PInf = PInf"
| "fadd NInf b = NInf"
| "fadd a NInf = NInf"

definition fsub :: "float64 \<Rightarrow> float64 \<Rightarrow> float64" where
  "fsub a b = fadd a (fneg b)"

text \<open>The infinity that has the sign of the real \<open>x\<close>; the product with zero is a NaN.\<close>

definition signed_inf :: "real \<Rightarrow> float64" where
  "signed_inf x = (if x = 0 then NaN else if 0 < x then PInf else NInf)"

fun fmul :: "float64 \<Rightarrow> float64 \<Rightarrow> float64" where
  "fmul (Fin x) (Fin y) = Fin (x * y)"
| "fmul NaN b = NaN"
| "fmul a NaN = NaN"
| "fmul (Fin x) PInf = signed_inf x"
| "fmul (Fin x) NInf = signed_inf (- x)"
| "fmul PInf (Fin y) = signed_inf y"
| "fmul NInf (Fin y) = signed_inf (- y)"
| "fmul PInf PInf = PInf"
| "fmul PInf NInf = NInf"
| "fmul NInf PInf = NInf"
| "fmul NInf NInf = PInf"

fun fdiv :: "float64 \<Rightarrow> float64 \<Rightarrow> float64" where
  "fdiv (Fin x) (Fin y) = (if y = 0 then signed_inf x else Fin (x / y))"
| "fdiv NaN b = NaN"
| "fdiv a NaN = NaN"
| "fdiv (Fin x) PInf = Fin 0"
| "fdiv (Fin x) NInf = Fin 0"
| "fdiv PInf (Fin y) = (if 0 \<le> y then PInf else NInf)"
| "fdiv NInf (Fin y) = (if 0 \<le> y then NInf else PInf)"
| "fdiv PInf b = NaN"
| "fdiv NInf b = NaN"

text \<open>The comparison \<open>a < b\<close> of two floats.\<close>

fun flt :: "float64 \<Rightarrow> float64 \<Rightarrow> bool" where
  "flt (Fin x) (Fin y) = (x < y)"
| "flt NaN b = False"
| "flt a NaN = False"
| "flt a NInf = False"
| "flt PInf b = False"
| "flt (Fin x) PInf = True"
| "flt NInf b = True"

fun fcos :: "float64 \<Rightarrow> float64" where
  "fcos (Fin x) = Fin (cos x)"
| "fcos a = NaN"

fun fsin :: "float64 \<Rightarrow> float64" where
  "fsin (Fin x) = Fin (sin x)"
| "fsin a = NaN"

fun fasin :: "float64 \<Rightarrow> float64" where
  "fasin (Fin x) = (if - 1 \<le> x \<and> x \<le> 1 then Fin (arcsin x) else NaN)"
| "fasin a = NaN"

fun fsqrt :: "float64 \<Rightarrow> float64" where
  "fsqrt (Fin x) = (if 0 \<le> x then Fin (sqrt x) else NaN)"
| "fsqrt PInf = PInf"
| "fsqrt a = NaN"

text \<open>\<open>math.Pow(x, 2)\<close>, the only power the source takes.\<close>

fun fpow2 :: "float64 \<Rightarrow> float64" where
  "fpow2 (Fin x) = Fin (x * x)"
| "fpow2 NaN = NaN"
| "fpow2 a = PInf"

text \<open>\<open>math.Atan2(y, x)\<close>, with the special cases of its documentation.\<close>

fun fatan2 :: "float64 \<Rightarrow> float64 \<Rightarrow> float64" where
  "fatan2 (Fin y) (Fin x) =
     Fin (if 0 < x then arctan (y / x)
          else if x < 0 then (if 0 \<le> y then arctan (y / x) + pi else arctan (y / x) - pi)
          else if 0 < y then pi / 2
          else if y < 0 then - (pi / 2)
          else 0)"
| "fatan2 NaN x = NaN"
| "fatan2 y NaN = NaN"
| "fatan2 PInf PInf = Fin (pi / 4)"
| "fatan2 NInf PInf = Fin (- (pi / 4))"
| "fatan2 PInf NInf = Fin (3 * pi / 4)"
| "fatan2 NInf NInf = Fin (- (3 * pi / 4))"
| "fatan2 (Fin y) PInf = Fin 0"
| "fatan2 (Fin y) NInf = Fin (if 0 \<le> y then pi else - pi)"
| "fatan2 PInf (Fin x) = Fin (pi / 2)"
| "fatan2 NInf (Fin x) = Fin (- (pi / 2))"

text \<open>
  \<open>math.Mod(x, y)\<close>: the remainder of the division truncated toward zero, so that the
  result has the sign of \<open>x\<close> and a magnitude less than that of \<open>y\<close>.
\<close>

definition trunc :: "real \<Rightarrow> int" where
  "trunc q = (if 0 \<le> q then \<lfloor>q\<rfloor> else \<lceil>q\<rceil>)"

fun fmod :: "float64 \<Rightarrow> float64 \<Rightarrow> float64" where
  "fmod (Fin x) (Fin y) = (if y = 0 then NaN else Fin (x - y * of_int (trunc (x / y))))"
| "fmod NaN y = NaN"
| "fmod x NaN = NaN"
| "fmod PInf y = NaN"
| "fmod NInf y = NaN"
| "fmod (Fin x) y = Fin x"

definition Pi :: float64 where
  "Pi = Fin pi"

text \<open>\<open>math.MaxFloat64\<close> is \<open>2^1023 * (2 - 2^-52)\<close>.\<close>

definition MaxFloat64 :: float64 where
  "MaxFloat64 = Fin (2 ^ 1023 * (2 - 1 / 2 ^ 52))"

subsection \<open>The data model\<close>

text \<open>
  The types of package \<open>shuttletracker\<close> are declared outside the three files; their
  fields are the ones the files read and write. A Go \<open>int\<close> or \<open>int64\<close> is an
  unbounded \<open>int\<close> here: the indices stay within the length of a slice and the id counter
  starts at 1 and grows by one per stored location. A \<open>time.Time\<close> is the number of
  nanoseconds since the zero time, so that the zero value of the type is \<open>0\<close>. A pointer
  field that may be nil is an \<open>option\<close>.
\<close>

record Point =
  Latitude :: float64
  Longitude :: float64

record Stop =
  Stop_ID :: int
  Stop_Latitude :: float64
  Stop_Longitude :: float64

record Route =
  Route_ID :: int
  Points :: "Point list"
  StopIDs :: "int list"

record Vehicle =
  Vehicle_ID :: int

record Location =
  Loc_ID :: int
  Loc_TrackerID :: string
  Loc_Latitude :: float64
  Loc_Longitude :: float64
  Loc_Heading :: float64
  Loc_Speed :: float64
  Loc_Time :: int
  Loc_Created :: int
  Loc_VehicleID :: "int option"
  Loc_RouteID :: "int option"

record Prediction =
  Pred_VehicleID :: int
  Pred_Point :: Point
  Pred_Index :: int
  Pred_Angle :: float64

text \<open>A run-time panic of the Go program.\<close>

datatype panic = NilDereference | IndexOutOfRange

text \<open>\<open>xs[i]\<close> on a slice: a panic (here \<open>None\<close>) when the index is out of range.\<close>

definition index_at :: "'a list \<Rightarrow> int \<Rightarrow> 'a option" where
  "index_at xs i = (if 0 \<le> i \<and> i < int (length xs) then Some (xs ! nat i) else None)"

subsection \<open>Geometry\<close>

definition earthRadius :: real where
  "earthRadius = 6371000"

definition haversine :: "float64 \<Rightarrow> float64" where
  "haversine theta = fdiv (fsub (Fin 1) (fcos theta)) (Fin 2)"

definition toRadians :: "float64 \<Rightarrow> float64" where
  "toRadians n = fdiv (fmul n Pi) (Fin 180)"

definition toDegrees :: "float64 \<Rightarrow> float64" where
  "toDegrees angle = fdiv (fmul angle (Fin 180)) Pi"

definition DistanceBetween :: "Point \<Rightarrow> Point \<Rightarrow> float64" where
  "DistanceBetween p1 p2 =
     (let lat1Rad = toRadians (Latitude p1);
          lon1Rad = toRadians (Longitude p1);
          lat2Rad = toRadians (Latitude p2);
          lon2Rad = toRadians (Longitude p2)
      in fmul (Fin (2 * earthRadius))
           (fasin (fsqrt
              (fadd (haversine (fsub lat2Rad lat1Rad))
                    (fmul (fmul (fcos lat1Rad) (fcos lat2Rad))
                          (haversine (fsub lon2Rad lon1Rad)))))))"

definition AngleBetween :: "Point \<Rightarrow> Point \<Rightarrow> float64" where
  "AngleBetween p1 p2 =
     (let radLat1 = toRadians (Latitude p1);
          radLng1 = toRadians (Longitude p1);
          radLat2 = toRadians (Latitude p2);
          radLng2 = toRadians (Longitude p2);
          deltaLongitude = fsub radLng2 radLng1;
          y = fmul (fsin deltaLongitude) (fcos radLat2);
          x = fsub (fmul (fcos radLat1) (fsin radLat2))
                   (fmul (fmul (fsin radLat1) (fcos radLat2)) (fcos deltaLongitude));
          brng = fatan2 y x;
          brng = toDegrees brng;
          brng = fmod (fadd brng (Fin 360)) (Fin 360)
      in fsub brng (Fin 45))"


subsection \<open>The model service\<close>

text \<open>
  The model service is the external store of vehicles, routes, stops and locations. A Go
  call that returns a pointer and an error is a pair of two options here, and the pair is
  whatever the service answers: the code below decides what follows from it. The service is
  read as a function of its arguments during one call of the code.
\<close>

type_synonym error = string

record ModelService =
  ms_Vehicle :: "int \<Rightarrow> Vehicle option \<times> error option"
  ms_Route :: "int \<Rightarrow> Route option \<times> error option"
  ms_Stops :: "Stop list \<times> error option"
  ms_CreateLocation :: "Location \<Rightarrow> error option"

subsection \<open>Closest point and closest stop\<close>

text \<open>
  The result of a function that may panic is \<open>Inl\<close> of the panic or \<open>Inr\<close> of its value;
  around it, \<open>None\<close> is a call that never returns.
\<close>

definition rbind :: "(panic + 'a) option \<Rightarrow> ('a \<Rightarrow> (panic + 'b) option) \<Rightarrow> (panic + 'b) option" where
  "rbind m f = (case m of None \<Rightarrow> None | Some (Inl e) \<Rightarrow> Some (Inl e) | Some (Inr x) \<Rightarrow> f x)"

text \<open>The range loop of \<open>ClosestPointTo\<close>, at position \<open>i\<close> of the slice.\<close>

fun ClosestPointTo_loop :: "float64 \<Rightarrow> float64 \<Rightarrow> Point list \<Rightarrow> int \<Rightarrow> int \<Rightarrow> float64 \<Rightarrow> int" where
  "ClosestPointTo_loop latitude longitude [] i index minDistance = index"
| "ClosestPointTo_loop latitude longitude (point # rest) i index minDistance =
     (let distance = DistanceBetween point \<lparr>Latitude = latitude, Longitude = longitude\<rparr>
      in if flt distance minDistance
         then ClosestPointTo_loop latitude longitude rest (i + 1) i distance
         else ClosestPointTo_loop latitude longitude rest (i + 1) index minDistance)"

definition ClosestPointTo :: "float64 \<Rightarrow> float64 \<Rightarrow> Route \<Rightarrow> int" where
  "ClosestPointTo latitude longitude route =
     ClosestPointTo_loop latitude longitude (Points route) 0 0 PInf"

text \<open>
  The inner loop of \<open>ClosestStop\<close>, \<open>for j < len(stops)\<close>. Its body never changes \<open>j\<close>:
  it leaves the loop by \<open>break\<close> when the stop at \<open>j\<close> is the stop listed at \<open>i\<close> and is
  closer than the minimum so far, and goes round again with the same \<open>j\<close> otherwise. The
  value is the pair \<open>(minDistance, minDistanceStopIndex)\<close> after the loop.
\<close>

partial_function (option) ClosestStop_inner ::
  "int \<Rightarrow> Route \<Rightarrow> Stop list \<Rightarrow> int \<Rightarrow> int \<Rightarrow> float64 \<Rightarrow> int \<Rightarrow> (panic + float64 \<times> int) option" where
  "ClosestStop_inner currentIndex route stops i j minDistance minDistanceStopIndex =
     (if j < int (length stops) then
        (case index_at (StopIDs route) i of
           None \<Rightarrow> Some (Inl IndexOutOfRange)
         | Some stopID \<Rightarrow>
             (case index_at stops j of
                None \<Rightarrow> Some (Inl IndexOutOfRange)
              | Some stop \<Rightarrow>
                  if stopID = Stop_ID stop then
                    (case index_at (Points route) currentIndex of
                       None \<Rightarrow> Some (Inl IndexOutOfRange)
                     | Some point \<Rightarrow>
                         (let dist = DistanceBetween
                                \<lparr>Latitude = Stop_Latitude stop, Longitude = Stop_Longitude stop\<rparr> point
                          in if flt dist minDistance then Some (Inr (dist, j))
                             else ClosestStop_inner currentIndex route stops i j
                                    minDistance minDistanceStopIndex))
                  else ClosestStop_inner currentIndex route stops i j
                         minDistance minDistanceStopIndex))
      else Some (Inr (minDistance, minDistanceStopIndex)))"

text \<open>
  The outer loop, \<open>for i < len(route.StopIDs)\<close>. Its body never changes \<open>i\<close> either: it
  asks the model service for the stops, runs the inner loop from \<open>j = 0\<close>, and goes round
  again.
\<close>

partial_function (option) ClosestStop_outer ::
  "int \<Rightarrow> Route \<Rightarrow> ModelService \<Rightarrow> int \<Rightarrow> float64 \<Rightarrow> int \<Rightarrow> (panic + int) option" where
  "ClosestStop_outer currentIndex route ms i minDistance minDistanceStopIndex =
     (if i < int (length (StopIDs route)) then
        Option.bind
          (ClosestStop_inner currentIndex route (fst (ms_Stops ms)) i 0
             minDistance minDistanceStopIndex)
          (\<lambda>r. case r of
                 Inl e \<Rightarrow> Some (Inl e)
               | Inr m \<Rightarrow> ClosestStop_outer currentIndex route ms i (fst m) (snd m))
      else Some (Inr minDistanceStopIndex))"

definition ClosestStop :: "int \<Rightarrow> Route \<Rightarrow> ModelService \<Rightarrow> (panic + int) option" where
  "ClosestStop currentIndex route ms = ClosestStop_outer currentIndex route ms 0 MaxFloat64 0"

definition HeadingTowardTowardOrLeavingStop ::
  "int \<Rightarrow> int \<Rightarrow> Route \<Rightarrow> ModelService \<Rightarrow> panic + bool" where
  "HeadingTowardTowardOrLeavingStop currentIndex stopIndex route ms =
     (let stops = fst (ms_Stops ms)
      in case index_at stops stopIndex of
           None \<Rightarrow> Inl IndexOutOfRange
         | Some stop \<Rightarrow>
             (let stopRouteIndex = ClosestPointTo (Stop_Latitude stop) (Stop_Longitude stop) route
              in if currentIndex \<le> stopRouteIndex
                    \<and> stopRouteIndex - currentIndex < int (length (Points route)) div 2
                 then Inr True
                 else if currentIndex > stopRouteIndex
                    \<and> currentIndex - stopRouteIndex > int (length (Points route)) div 2
                 then Inr True
                 else Inr False))"

text \<open>The loop of \<open>DistanceToPointAlongRoute\<close>, \<open>for index != stopindex\<close>.\<close>

partial_function (option) DistanceToPointAlongRoute_loop ::
  "int \<Rightarrow> Route \<Rightarrow> int \<Rightarrow> float64 \<Rightarrow> (panic + float64) option" where
  "DistanceToPointAlongRoute_loop stopindex route index elapsedDistance =
     (if index \<noteq> stopindex then
        (let prevIndex = index;
             index1 = index + 1;
             index2 = (if index1 \<ge> int (length (Points route)) then 0 else index1)
         in case index_at (Points route) prevIndex of
              None \<Rightarrow> Some (Inl IndexOutOfRange)
            | Some p \<Rightarrow>
                (case index_at (Points route) index2 of
                   None \<Rightarrow> Some (Inl IndexOutOfRange)
                 | Some q \<Rightarrow>
                     DistanceToPointAlongRoute_loop stopindex route index2
                       (fadd elapsedDistance (DistanceBetween p q))))
      else Some (Inr elapsedDistance))"

definition DistanceToPointAlongRoute :: "int \<Rightarrow> int \<Rightarrow> Route \<Rightarrow> (panic + float64) option" where
  "DistanceToPointAlongRoute currentindex stopindex route =
     DistanceToPointAlongRoute_loop stopindex route currentindex (Fin 0)"

definition acceleration :: "float64 \<Rightarrow> float64 \<Rightarrow> float64" where
  "acceleration velocity distance = fdiv (fneg (fpow2 velocity)) (fmul (Fin 2) distance)"

subsection \<open>The prediction\<close>

text \<open>
  The forward walk of \<open>NaivePredictPosition\<close>, \<open>for elapsedDistance < predictedDistance\<close>.
  The value is the triple \<open>(index, elapsedDistance, angle)\<close> after the loop.
\<close>

partial_function (option) NaivePredictPosition_loop ::
  "Route \<Rightarrow> float64 \<Rightarrow> int \<Rightarrow> float64 \<Rightarrow> float64 \<Rightarrow> (panic + int \<times> float64 \<times> float64) option" where
  "NaivePredictPosition_loop route predictedDistance index elapsedDistance angle =
     (if flt elapsedDistance predictedDistance then
        (let prevIndex = index;
             index1 = index + 1;
             index2 = (if index1 \<ge> int (length (Points route)) then 0 else index1)
         in case index_at (Points route) prevIndex of
              None \<Rightarrow> Some (Inl IndexOutOfRange)
            | Some p \<Rightarrow>
                (case index_at (Points route) index2 of
                   None \<Rightarrow> Some (Inl IndexOutOfRange)
                 | Some q \<Rightarrow>
                     NaivePredictPosition_loop route predictedDistance index2
                       (fadd elapsedDistance (DistanceBetween p q)) (AngleBetween p q)))
      else Some (Inr (index, elapsedDistance, angle)))"

text \<open>
  \<open>d.Seconds()\<close> of a duration of \<open>d\<close> nanoseconds, and the distance the vehicle is
  predicted to have travelled: speed times time, or, close to a stop it is heading to, the
  distance under the constant deceleration that stops it at the stop.
\<close>

definition Seconds :: "int \<Rightarrow> float64" where
  "Seconds d = Fin (real_of_int d / 1000000000)"

definition predictedDistance_of :: "bool \<Rightarrow> float64 \<Rightarrow> float64 \<Rightarrow> float64 \<Rightarrow> float64" where
  "predictedDistance_of headingToward distanceToStop speed secondsSinceUpdate =
     (if headingToward \<and> flt distanceToStop (Fin 30) then
        (let a = acceleration speed distanceToStop
         in fadd (fmul speed secondsSinceUpdate)
                 (fmul (fmul (Fin (1 / 2)) a) (fpow2 secondsSinceUpdate)))
      else fmul secondsSinceUpdate speed)"

text \<open>
  \<open>NaivePredictPosition\<close>; \<open>now\<close> is the clock that \<open>time.Since\<close> reads.
\<close>

definition NaivePredictPosition ::
  "int \<Rightarrow> Vehicle \<Rightarrow> Location \<Rightarrow> Route \<Rightarrow> ModelService \<Rightarrow> (panic + Prediction) option" where
  "NaivePredictPosition now vehicle lastUpdate route ms =
     (let index = ClosestPointTo (Loc_Latitude lastUpdate) (Loc_Longitude lastUpdate) route
      in rbind (ClosestStop index route ms) (\<lambda>stopIndex.
         rbind (Some (HeadingTowardTowardOrLeavingStop index stopIndex route ms)) (\<lambda>headingToward.
         rbind (DistanceToPointAlongRoute index stopIndex route) (\<lambda>distanceToStop.
           (let secondsSinceUpdate = Seconds (now - Loc_Time lastUpdate);
                predictedDistance = predictedDistance_of headingToward distanceToStop
                                      (Loc_Speed lastUpdate) secondsSinceUpdate
            in rbind (NaivePredictPosition_loop route predictedDistance index (Fin 0) (Fin 0))
                 (\<lambda>w. case index_at (Points route) (fst w) of
                        None \<Rightarrow> Some (Inl IndexOutOfRange)
                      | Some p \<Rightarrow>
                          Some (Inr \<lparr>Pred_VehicleID = Vehicle_ID vehicle, Pred_Point = p,
                                     Pred_Index = fst w, Pred_Angle = snd (snd w)\<rparr>)))))))"


subsection \<open>What the program does to the outside\<close>

text \<open>
  Beside their own state, the two managers write error lines to the log, hand locations to
  the model service and call their subscribers. The model records these effects in call
  order: the error lines, every call of \<open>CreateLocation\<close> with its argument and its answer
  (\<open>None\<close> for a nil error), and every call of a subscriber with its argument. A subscriber
  is a callback; the model names it by a number. The model service is read as leaving the
  location it is handed as it is.
\<close>

record 'e Effects =
  logged :: "string list"
  created :: "(Location \<times> error option) list"
  delivered :: "(nat \<times> 'e) list"

definition log_error :: "string \<Rightarrow> 'e Effects \<Rightarrow> 'e Effects" where
  "log_error line fx = fx\<lparr>logged := logged fx @ [line]\<rparr>"

definition no_effects :: "'e Effects" where
  "no_effects = \<lparr>logged = [], created = [], delivered = []\<rparr>"

subsection \<open>The tracking manager\<close>

record SmoothTrackingManager =
  predictions :: "int \<rightharpoonup> Prediction"
  predictUpdates :: bool
  updates :: "int \<rightharpoonup> Location"
  vehicleIDs :: "int list"
  subscribers :: "nat list"

text \<open>\<open>NewManager\<close>, for a configuration whose interval parses.\<close>

definition NewManager :: "bool \<Rightarrow> SmoothTrackingManager" where
  "NewManager cfg_PredictUpdates =
     \<lparr>predictions = Map.empty, predictUpdates = cfg_PredictUpdates, updates = Map.empty,
      vehicleIDs = [], subscribers = []\<rparr>"

text \<open>The search of \<open>locationSubscriber\<close> for the vehicle in the active list: \<open>-1\<close> when absent.\<close>

fun find_vehicle :: "int \<Rightarrow> int list \<Rightarrow> int \<Rightarrow> int" where
  "find_vehicle vehicleID [] i = - 1"
| "find_vehicle vehicleID (x # xs) i = (if x = vehicleID then i else find_vehicle vehicleID xs (i + 1))"

text \<open>
  \<open>locationSubscriber\<close>. Its last block only writes debug lines and is left out.
\<close>

definition locationSubscriber :: "Location \<Rightarrow> SmoothTrackingManager \<Rightarrow> SmoothTrackingManager" where
  "locationSubscriber loc stm =
     (case Loc_VehicleID loc of
        None \<Rightarrow> stm
      | Some vehicleID \<Rightarrow>
          (let stm1 = stm\<lparr>updates := (updates stm)(vehicleID \<mapsto> loc)\<rparr>;
               index = find_vehicle vehicleID (vehicleIDs stm1) 0
           in if Loc_RouteID loc \<noteq> None then
                (if index < 0 then stm1\<lparr>vehicleIDs := vehicleIDs stm1 @ [vehicleID]\<rparr> else stm1)
              else if index \<ge> 0 then
                stm1\<lparr>vehicleIDs :=
                  butlast ((vehicleIDs stm1)[nat index := last (vehicleIDs stm1)])\<rparr>
              else stm1))"

text \<open>The location that \<open>predictVehiclePosition\<close> builds from the update, the route and the prediction.\<close>

definition newUpdate_of :: "int \<Rightarrow> Location \<Rightarrow> Route \<Rightarrow> Prediction \<Rightarrow> Location" where
  "newUpdate_of now update route prediction =
     \<lparr>Loc_ID = 0,
      Loc_TrackerID = Loc_TrackerID update,
      Loc_Latitude = Latitude (Pred_Point prediction),
      Loc_Longitude = Longitude (Pred_Point prediction),
      Loc_Heading = Loc_Heading update,
      Loc_Speed = Loc_Speed update,
      Loc_Time = now,
      Loc_Created = 0,
      Loc_VehicleID = None,
      Loc_RouteID = Some (Route_ID route)\<rparr>"

text \<open>
  \<open>predictVehiclePosition\<close>. After each of its four checks the function only writes an
  error line and goes on, so the next statement dereferences the nil pointer; a nil route
  is dereferenced by the first statement of \<open>NaivePredictPosition\<close>. The call of
  \<open>NaivePredictPosition\<close> in the source passes three arguments to a function of four; the
  model passes the manager's model service, the only one in scope. Both clock reads of the
  call, \<open>time.Since\<close> and \<open>time.Now\<close>, see the same instant \<open>now\<close>. A panic ends the program:
  its value keeps the effects up to it.
\<close>

type_synonym stm_state = "SmoothTrackingManager \<times> Prediction Effects"

type_synonym stm_result = "(panic \<times> Prediction Effects + stm_state) option"

definition predictVehiclePosition :: "ModelService \<Rightarrow> int \<Rightarrow> int \<Rightarrow> stm_state \<Rightarrow> stm_result" where
  "predictVehiclePosition ms now vehicleID s =
     (let stm = fst s;
          fx0 = snd s;
          fx1 = (if snd (ms_Vehicle ms vehicleID) \<noteq> None
                 then log_error ''cannot get vehicle for prediction'' fx0 else fx0)
      in case fst (ms_Vehicle ms vehicleID) of
           None \<Rightarrow> Some (Inl (NilDereference, fx1))
         | Some vehicle \<Rightarrow>
             (let fx2 = (if updates stm (Vehicle_ID vehicle) = None
                         then log_error ''no prior update for vehicle'' fx1 else fx1)
              in case updates stm (Vehicle_ID vehicle) of
                   None \<Rightarrow> Some (Inl (NilDereference, fx2))
                 | Some update \<Rightarrow>
                     (let fx3 = (if Loc_RouteID update = None
                                 then log_error ''no route for vehicle'' fx2 else fx2)
                      in case Loc_RouteID update of
                           None \<Rightarrow> Some (Inl (NilDereference, fx3))
                         | Some routeID \<Rightarrow>
                             (let fx4 = (if snd (ms_Route ms routeID) \<noteq> None
                                         then log_error ''cannot get route for prediction'' fx3
                                         else fx3)
                              in case fst (ms_Route ms routeID) of
                                   None \<Rightarrow> Some (Inl (NilDereference, fx4))
                                 | Some route \<Rightarrow>
                                     (case NaivePredictPosition now vehicle update route ms of
                                        None \<Rightarrow> None
                                      | Some (Inl p) \<Rightarrow> Some (Inl (p, fx4))
                                      | Some (Inr prediction) \<Rightarrow>
                                          (let newUpdate = newUpdate_of now update route prediction;
                                               err = ms_CreateLocation ms newUpdate;
                                               fx5 = fx4\<lparr>created := created fx4 @ [(newUpdate, err)]\<rparr>;
                                               fx6 = (if err \<noteq> None
                                                      then log_error ''could not create location for prediction'' fx5
                                                      else fx5)
                                           in Some (Inr
                                                (stm\<lparr>predictions :=
                                                       (predictions stm)(Vehicle_ID vehicle \<mapsto> prediction)\<rparr>,
                                                 fx6))))))))"

text \<open>One tick of \<open>Run\<close>: the loop over the active vehicles.\<close>

fun predict_vehicles :: "ModelService \<Rightarrow> int \<Rightarrow> int list \<Rightarrow> stm_state \<Rightarrow> stm_result" where
  "predict_vehicles ms now [] s = Some (Inr s)"
| "predict_vehicles ms now (vehicleID # rest) s =
     (case predictVehiclePosition ms now vehicleID s of
        None \<Rightarrow> None
      | Some (Inl p) \<Rightarrow> Some (Inl p)
      | Some (Inr s1) \<Rightarrow> predict_vehicles ms now rest s1)"

definition tick :: "ModelService \<Rightarrow> int \<Rightarrow> stm_state \<Rightarrow> stm_result" where
  "tick ms now s = predict_vehicles ms now (vehicleIDs (fst s)) s"

text \<open>
  \<open>Run\<close> for the ticks of a finite stretch of time; each tick comes with the model service
  as it answers then and with the clock.
\<close>

fun Run_ticks :: "(ModelService \<times> int) list \<Rightarrow> stm_state \<Rightarrow> stm_result" where
  "Run_ticks [] s = Some (Inr s)"
| "Run_ticks (t # later) s =
     (case tick (fst t) (snd t) s of
        None \<Rightarrow> None
      | Some (Inl p) \<Rightarrow> Some (Inl p)
      | Some (Inr s1) \<Rightarrow> Run_ticks later s1)"

definition Run :: "(ModelService \<times> int) list \<Rightarrow> stm_state \<Rightarrow> stm_result" where
  "Run ticks s = (if predictUpdates (fst s) then Run_ticks ticks s else Some (Inr s))"

definition handleNewPrediction :: "Prediction \<Rightarrow> stm_state \<Rightarrow> stm_state" where
  "handleNewPrediction prediction s =
     ((fst s)\<lparr>predictions := (predictions (fst s))(Pred_VehicleID prediction \<mapsto> prediction)\<rparr>,
      (snd s)\<lparr>delivered := delivered (snd s) @ map (\<lambda>sub. (sub, prediction)) (subscribers (fst s))\<rparr>)"

definition Subscribe :: "nat \<Rightarrow> SmoothTrackingManager \<Rightarrow> SmoothTrackingManager" where
  "Subscribe sub stm = stm\<lparr>subscribers := subscribers stm @ [sub]\<rparr>"

subsection \<open>The replay engine\<close>

record Spoofer =
  SpoofUpdates :: bool
  spoofIndexes :: "int \<rightharpoonup> int"
  spoof_updates :: "int \<rightharpoonup> Location list"
  updateID :: int
  spoof_subscribers :: "nat list"

definition New :: "bool \<Rightarrow> Spoofer" where
  "New cfg_SpoofUpdates =
     \<lparr>SpoofUpdates = cfg_SpoofUpdates, spoofIndexes = Map.empty, spoof_updates = Map.empty,
      updateID = 1, spoof_subscribers = []\<rparr>"

text \<open>A read of the Go map \<open>spoofIndexes\<close>: a missing key reads as \<open>0\<close>.\<close>

definition spoofIndex :: "Spoofer \<Rightarrow> int \<Rightarrow> int" where
  "spoofIndex s vehicleID = (case spoofIndexes s vehicleID of None \<Rightarrow> 0 | Some i \<Rightarrow> i)"

type_synonym spoofer_state = "Spoofer \<times> Location Effects"

text \<open>
  \<open>parseUpdates\<close> over the JSON files of the data directory, in directory order: a file
  either cannot be opened, or yields the slice that \<open>json.Unmarshal\<close> leaves in \<open>updates\<close>
  (the error line for a file that cannot be read to its end, and the debug lines, are left
  out).
\<close>

datatype spoof_file = OpenFails | Content "Location list"

fun parseUpdates :: "spoof_file list \<Rightarrow> spoofer_state \<Rightarrow> spoofer_state" where
  "parseUpdates [] s = s"
| "parseUpdates (OpenFails # files) s =
     (fst s, log_error ''Error opening spoof data file'' (snd s))"
| "parseUpdates (Content [] # files) s = parseUpdates files s"
| "parseUpdates (Content (first # others) # files) s =
     (case Loc_VehicleID first of
        None \<Rightarrow> parseUpdates files (fst s, log_error ''Missing vehicle ID from spoof file'' (snd s))
      | Some vehicleID \<Rightarrow>
          parseUpdates files
            ((fst s)\<lparr>spoof_updates := (spoof_updates (fst s))(vehicleID \<mapsto> first # others),
                     spoofIndexes := (spoofIndexes (fst s))(vehicleID \<mapsto> 0)\<rparr>,
             snd s))"

definition notifySubscribers :: "Location \<Rightarrow> spoofer_state \<Rightarrow> Location Effects" where
  "notifySubscribers loc s =
     (snd s)\<lparr>delivered := delivered (snd s) @ map (\<lambda>sub. (sub, loc)) (spoof_subscribers (fst s))\<rparr>"

text \<open>
  \<open>spoof\<close>. Go visits the keys of the map \<open>updates\<close> in an order of its own choosing; the
  list \<open>order\<close> is that order, for this call. Both clock reads of one round see the same
  instant \<open>now\<close>. When \<open>CreateLocation\<close> fails, the function writes an error line and
  returns: the vehicles that come later in \<open>order\<close> are not visited. An element of
  \<open>order\<close> that is no key of the map is passed over. The slice that the source calls
  \<open>updates\<close> in the loop is \<open>sequence\<close> here.
\<close>

fun spoof :: "ModelService \<Rightarrow> int \<Rightarrow> int list \<Rightarrow> spoofer_state \<Rightarrow> panic \<times> Location Effects + spoofer_state" where
  "spoof ms now [] s = Inr s"
| "spoof ms now (vehicleID # rest) s =
     (case spoof_updates (fst s) vehicleID of
        None \<Rightarrow> spoof ms now rest s
      | Some sequence \<Rightarrow>
          (case index_at sequence (spoofIndex (fst s) vehicleID) of
             None \<Rightarrow> Inl (IndexOutOfRange, snd s)
           | Some recorded \<Rightarrow>
               (let update = recorded\<lparr>Loc_Created := now, Loc_Time := now, Loc_ID := updateID (fst s)\<rparr>;
                    err = ms_CreateLocation ms update;
                    fx1 = (snd s)\<lparr>created := created (snd s) @ [(update, err)]\<rparr>
                in if err \<noteq> None
                   then Inr (fst s, log_error ''Could not create spoofed location for vehicle'' fx1)
                   else
                     (let fx2 = notifySubscribers update (fst s, fx1);
                          next1 = spoofIndex (fst s) vehicleID + 1;
                          next2 = (if next1 \<ge> int (length sequence) then 0 else next1)
                      in spoof ms now rest
                           ((fst s)\<lparr>spoofIndexes := (spoofIndexes (fst s))(vehicleID \<mapsto> next2),
                                    updateID := updateID (fst s) + 1\<rparr>,
                            fx2)))))"

text \<open>
  The steps of \<open>Run\<close> for a finite stretch of time, the first one right after
  \<open>parseUpdates\<close>; each step comes with the model service as it answers then, the clock,
  and the order in which the map is visited.
\<close>

fun spoof_steps :: "(ModelService \<times> int \<times> int list) list \<Rightarrow> spoofer_state \<Rightarrow> panic \<times> Location Effects + spoofer_state" where
  "spoof_steps [] s = Inr s"
| "spoof_steps (step # later) s =
     (case spoof (fst step) (fst (snd step)) (snd (snd step)) s of
        Inl p \<Rightarrow> Inl p
      | Inr s1 \<Rightarrow> spoof_steps later s1)"

definition Spoofer_Run ::
  "spoof_file list \<Rightarrow> (ModelService \<times> int \<times> int list) list \<Rightarrow> spoofer_state \<Rightarrow> panic \<times> Location Effects + spoofer_state" where
  "Spoofer_Run files steps s =
     (if SpoofUpdates (fst s) then spoof_steps steps (parseUpdates files s) else Inr s)"


subsection \<open>The forward walk, in the words of the specification\<close>






subsection \<open>Example data\<close>


definition point_route :: Route where
  "point_route = \<lparr>Route_ID = 1, Points = [\<lparr>Latitude = Fin 0, Longitude = Fin 0\<rparr>], StopIDs = []\<rparr>"

definition stop_at_origin :: Stop where
  "stop_at_origin = \<lparr>Stop_ID = 1, Stop_Latitude = Fin 0, Stop_Longitude = Fin 0\<rparr>"

definition example_service :: "(Location \<Rightarrow> error option) \<Rightarrow> ModelService" where
  "example_service create =
     \<lparr>ms_Vehicle = (\<lambda>i. (Some \<lparr>Vehicle_ID = i\<rparr>, None)),
      ms_Route = (\<lambda>i. (Some point_route, None)),
      ms_Stops = ([stop_at_origin], None),
      ms_CreateLocation = create\<rparr>"

definition observed :: "int \<Rightarrow> Location" where
  "observed vehicleID =
     \<lparr>Loc_ID = 5, Loc_TrackerID = ''tracker'', Loc_Latitude = Fin 0, Loc_Longitude = Fin 0,
      Loc_Heading = Fin 90, Loc_Speed = Fin 0, Loc_Time = 0, Loc_Created = 0,
      Loc_VehicleID = Some vehicleID, Loc_RouteID = Some 1\<rparr>"

text \<open>
  The effects that a call leaves behind, whether it returned or panicked; and a manager
  with one subscriber that has seen a location of vehicle 1 and one of vehicle 2.
\<close>

definition outcome_effects :: "panic \<times> 'e Effects + 's \<times> 'e Effects \<Rightarrow> 'e Effects" where
  "outcome_effects r = (case r of Inl p \<Rightarrow> snd p | Inr s \<Rightarrow> snd s)"

definition active_manager :: SmoothTrackingManager where
  "active_manager =
     Subscribe 0 (locationSubscriber (observed 2) (locationSubscriber (observed 1) (NewManager True)))"

subsection \<open>The replay engine: subscription, invariants and example data\<close>

text \<open>
  \<open>Subscribe\<close> of the replay engine. Then the two invariants of its state: every cursor
  lies within its recorded sequence; and the ids of the locations stored so far (the calls
  of \<open>CreateLocation\<close> that returned no error) are pairwise distinct and below the id
  counter.
\<close>

definition Spoofer_Subscribe :: "nat \<Rightarrow> Spoofer \<Rightarrow> Spoofer" where
  "Spoofer_Subscribe f s = s\<lparr>spoof_subscribers := spoof_subscribers s @ [f]\<rparr>"

definition cursor_inv :: "Spoofer \<Rightarrow> bool" where
  "cursor_inv s =
     (\<forall>v sequence. spoof_updates s v = Some sequence
         \<longrightarrow> 0 \<le> spoofIndex s v \<and> spoofIndex s v < int (length sequence))"

definition persisted_ids :: "Location Effects \<Rightarrow> int list" where
  "persisted_ids fx = map (\<lambda>le. Loc_ID (fst le)) (filter (\<lambda>le. snd le = None) (created fx))"

definition ids_fresh :: "Spoofer \<Rightarrow> Location Effects \<Rightarrow> bool" where
  "ids_fresh s fx = (distinct (persisted_ids fx) \<and> (\<forall>i\<in>set (persisted_ids fx). i < updateID s))"

text \<open>
  Two recorded files, one location for vehicle 1 and three for vehicle 7; the replay engine
  with subscriber 0 after it has loaded them; and a \<open>CreateLocation\<close> that refuses the
  locations of one vehicle.
\<close>

definition example_files :: "spoof_file list" where
  "example_files =
     [Content [observed 1],
      Content [(observed 7)\<lparr>Loc_ID := 1\<rparr>, (observed 7)\<lparr>Loc_ID := 2\<rparr>, (observed 7)\<lparr>Loc_ID := 3\<rparr>]]"

definition loaded_spoofer :: Spoofer where
  "loaded_spoofer = fst (parseUpdates example_files (Spoofer_Subscribe 0 (New True), no_effects))"

definition refuse_vehicle :: "int \<Rightarrow> Location \<Rightarrow> error option" where
  "refuse_vehicle vehicleID l =
     (if Loc_VehicleID l = Some vehicleID then Some ''database is down'' else None)"

section \<open>Properties\<close>

subsection \<open>The bearing\<close>













subsection \<open>The closest stop\<close>

lemma ClosestStop_inner_no_panic:
  "ClosestStop_inner cur route stops i j d k = Some y \<Longrightarrow>
   index_at (Points route) cur \<noteq> None \<and> index_at (StopIDs route) i \<noteq> None \<and> 0 \<le> j
           \<longrightarrow> (\<exists>m. y = Inr m)"
  apply (erule ClosestStop_inner.raw_induct[rotated 1, where P = "\<lambda>cur route stops i j d k y.
     index_at (Points route) cur \<noteq> None \<and> index_at (StopIDs route) i \<noteq> None \<and> 0 \<le> j
           \<longrightarrow> (\<exists>m. y = Inr m)"])
  apply (auto simp: Let_def index_at_def split: if_splits option.splits)
  done

lemma ClosestStop_outer_no_result:
  "ClosestStop_outer cur route ms i d k = Some y \<Longrightarrow>
   \<not> (index_at (Points route) cur \<noteq> None \<and> index_at (StopIDs route) i \<noteq> None)"
  apply (erule ClosestStop_outer.raw_induct[rotated 1, where P = "\<lambda>cur route ms i d k y.
     \<not> (index_at (Points route) cur \<noteq> None \<and> index_at (StopIDs route) i \<noteq> None)"])
  subgoal premises prems for f cur route ms i d k y
  proof
    assume a: "index_at (Points route) cur \<noteq> None \<and> index_at (StopIDs route) i \<noteq> None"
    then have il: "i < int (length (StopIDs route))"
      by (simp add: index_at_def split: if_splits)
    from prems(2) il obtain r where
      r: "ClosestStop_inner cur route (fst (ms_Stops ms)) i 0 d k = Some r"
      and c: "(case r of Inl e \<Rightarrow> Some (Inl e) | Inr m \<Rightarrow> f cur route ms i (fst m) (snd m)) = Some y"
      by (auto simp: bind_eq_Some_conv)
    from ClosestStop_inner_no_panic[OF r] a obtain m where "r = Inr m" by auto
    with c have "f cur route ms i (fst m) (snd m) = Some y" by simp
    from prems(1)[OF this] a show False by simp
  qed
  done

lemma ClosestStop_diverges:
  assumes "index_at (Points route) cur \<noteq> None" and "StopIDs route \<noteq> []"
  shows "ClosestStop cur route ms = None"
proof (cases "ClosestStop cur route ms")
  case None
  then show ?thesis .
next
  case (Some y)
  from assms have "index_at (StopIDs route) 0 \<noteq> None" by (simp add: index_at_def)
  with Some assms ClosestStop_outer_no_result show ?thesis unfolding ClosestStop_def by blast
qed

lemma ClosestStop_no_stops: "StopIDs route = [] \<Longrightarrow> ClosestStop cur route ms = Some (Inr 0)"
  by (simp add: ClosestStop_def ClosestStop_outer.simps)

lemma ClosestStop_outer_no_value:
  "ClosestStop_outer cur route ms i d k = Some y \<Longrightarrow>
   index_at (StopIDs route) i \<noteq> None \<longrightarrow> (\<forall>n. y \<noteq> Inr n)"
  apply (erule ClosestStop_outer.raw_induct[rotated 1, where P = "\<lambda>cur route ms i d k y.
     index_at (StopIDs route) i \<noteq> None \<longrightarrow> (\<forall>n. y \<noteq> Inr n)"])
  subgoal premises prems for f cur route ms i d k y
  proof
    assume a: "index_at (StopIDs route) i \<noteq> None"
    then have il: "i < int (length (StopIDs route))"
      by (simp add: index_at_def split: if_splits)
    from prems(2) il obtain r where
      c: "(case r of Inl e \<Rightarrow> Some (Inl e) | Inr m \<Rightarrow> f cur route ms i (fst m) (snd m)) = Some y"
      by (auto simp: bind_eq_Some_conv)
    show "\<forall>n. y \<noteq> Inr n"
    proof (cases r)
      case (Inl e)
      with c show ?thesis by auto
    next
      case (Inr m)
      with c have "f cur route ms i (fst m) (snd m) = Some y" by simp
      from prems(1)[OF this] a show ?thesis by simp
    qed
  qed
  done

lemma ClosestStop_no_value:
  "StopIDs route \<noteq> [] \<Longrightarrow> ClosestStop cur route ms \<noteq> Some (Inr n)"
proof
  assume a: "StopIDs route \<noteq> []" and b: "ClosestStop cur route ms = Some (Inr n)"
  from a have "index_at (StopIDs route) 0 \<noteq> None" by (simp add: index_at_def)
  with b ClosestStop_outer_no_value[of cur route ms 0 MaxFloat64 0 "Inr n"]
  show False by (simp add: ClosestStop_def)
qed

text \<open>
  Claim C1 says that \<open>ClosestStop\<close> returns for every route and every stop collection. The
  code does not: neither loop advances its counter, so for a route that lists at least one
  stop the call never returns, whatever the model service answers for the stops (first
  part: at the first point of a route that has one; \<open>None\<close> is the call that does not
  return). At no index does such a call return an index (second part: it does not return,
  or it panics on an index outside the points); only for a route that lists no stop does
  the function return, with 0 (third part).
\<close>

theorem ClosestStop_never_returns:
  "ClosestStop 0 \<lparr>Route_ID = rid, Points = p # ps, StopIDs = stopID # others\<rparr> ms = None
   \<and> ClosestStop currentIndex \<lparr>Route_ID = rid, Points = points, StopIDs = stopID # others\<rparr> ms
       \<noteq> Some (Inr n)
   \<and> ClosestStop currentIndex \<lparr>Route_ID = rid, Points = points, StopIDs = []\<rparr> ms
       = Some (Inr 0)"
proof (intro conjI)
  show "ClosestStop 0 \<lparr>Route_ID = rid, Points = p # ps, StopIDs = stopID # others\<rparr> ms = None"
    by (rule ClosestStop_diverges) (simp_all add: index_at_def)
  show "ClosestStop currentIndex \<lparr>Route_ID = rid, Points = points, StopIDs = stopID # others\<rparr> ms
       \<noteq> Some (Inr n)"
    by (rule ClosestStop_no_value) simp
  show "ClosestStop currentIndex \<lparr>Route_ID = rid, Points = points, StopIDs = []\<rparr> ms
       = Some (Inr 0)"
    by (rule ClosestStop_no_stops) simp
qed

subsection \<open>The forward walk\<close>











lemma ClosestPointTo_loop_range:
  "ClosestPointTo_loop lat lon pts i idx d = idx
   \<or> (i \<le> ClosestPointTo_loop lat lon pts i idx d
      \<and> ClosestPointTo_loop lat lon pts i idx d < i + int (length pts))"
proof (induction pts arbitrary: i idx d)
  case Nil
  show ?case by simp
next
  case (Cons p pts)
  let ?dist = "DistanceBetween p \<lparr>Latitude = lat, Longitude = lon\<rparr>"
  show ?case
  proof (cases "flt ?dist d")
    case True
    with Cons.IH[of "i + 1" i ?dist] show ?thesis by (auto simp: Let_def)
  next
    case False
    with Cons.IH[of "i + 1" idx d] show ?thesis by (auto simp: Let_def)
  qed
qed

lemma ClosestPointTo_range:
  "Points route \<noteq> [] \<Longrightarrow>
   0 \<le> ClosestPointTo lat lon route \<and> ClosestPointTo lat lon route < int (length (Points route))"
  using ClosestPointTo_loop_range[of lat lon "Points route" 0 0 PInf]
  by (auto simp: ClosestPointTo_def)


lemma DistanceBetween_same_origin:
  "DistanceBetween \<lparr>Latitude = Fin 0, Longitude = Fin 0\<rparr> \<lparr>Latitude = Fin 0, Longitude = Fin 0\<rparr> = Fin 0"
  by (simp add: DistanceBetween_def toRadians_def haversine_def Pi_def fsub_def Let_def)



lemma NaivePredictPosition_example:
  "ClosestPointTo (Fin 0) (Fin 0) point_route = 0
   \<and> ClosestStop 0 point_route (example_service create) = Some (Inr 0)
   \<and> HeadingTowardTowardOrLeavingStop 0 0 point_route (example_service create) = Inr False
   \<and> DistanceToPointAlongRoute 0 0 point_route = Some (Inr (Fin 0))
   \<and> predictedDistance_of False (Fin 0) (Fin 0) (Seconds (10 - 0)) = Fin 0"
  by (simp add: ClosestPointTo_def DistanceBetween_same_origin ClosestStop_def ClosestStop_outer.simps
       HeadingTowardTowardOrLeavingStop_def example_service_def point_route_def stop_at_origin_def
       index_at_def DistanceToPointAlongRoute_def DistanceToPointAlongRoute_loop.simps
       predictedDistance_of_def Seconds_def Let_def)




subsection \<open>The tracking manager\<close>

lemma active_manager_fields:
  "vehicleIDs active_manager = [1, 2]"
  "subscribers active_manager = [0]"
  "updates active_manager = [1 \<mapsto> observed 1, 2 \<mapsto> observed 2]"
  "predictions active_manager = Map.empty"
  "predictUpdates active_manager = True"
  by (simp_all add: active_manager_def Subscribe_def locationSubscriber_def NewManager_def observed_def Let_def)

lemma predictVehiclePosition_returns:
  assumes "fst (ms_Vehicle ms vehicleID) = Some vehicle"
    and "updates stm (Vehicle_ID vehicle) = Some update"
    and "Loc_RouteID update = Some routeID"
    and "fst (ms_Route ms routeID) = Some route"
    and "NaivePredictPosition now vehicle update route ms = Some (Inr prediction)"
  shows "predictVehiclePosition ms now vehicleID (stm, fx) =
     Some (Inr (stm\<lparr>predictions := (predictions stm)(Vehicle_ID vehicle \<mapsto> prediction)\<rparr>,
       (let fx1 = (if snd (ms_Vehicle ms vehicleID) \<noteq> None
                   then log_error ''cannot get vehicle for prediction'' fx else fx);
            fx4 = (if snd (ms_Route ms routeID) \<noteq> None
                   then log_error ''cannot get route for prediction'' fx1 else fx1);
            newUpdate = newUpdate_of now update route prediction;
            err = ms_CreateLocation ms newUpdate;
            fx5 = fx4\<lparr>created := created fx4 @ [(newUpdate, err)]\<rparr>
        in if err \<noteq> None then log_error ''could not create location for prediction'' fx5 else fx5)))"
  using assms by (simp add: predictVehiclePosition_def Let_def)

lemma example_prediction:
  "NaivePredictPosition 10 \<lparr>Vehicle_ID = v\<rparr> (observed v) point_route (example_service create)
     = Some (Inr \<lparr>Pred_VehicleID = v, Pred_Point = \<lparr>Latitude = Fin 0, Longitude = Fin 0\<rparr>,
                  Pred_Index = 0, Pred_Angle = Fin 0\<rparr>)"
  using NaivePredictPosition_example[of create]
  by (simp add: NaivePredictPosition_def rbind_def observed_def NaivePredictPosition_loop.simps
        index_at_def point_route_def Let_def)

lemma example_pvp:
  "updates stm v = Some (observed v) \<Longrightarrow> predictVehiclePosition (example_service create) 10 v (stm, fx)
   = Some (Inr (stm\<lparr>predictions := (predictions stm)(v \<mapsto>
        \<lparr>Pred_VehicleID = v, Pred_Point = \<lparr>Latitude = Fin 0, Longitude = Fin 0\<rparr>,
                  Pred_Index = 0, Pred_Angle = Fin 0\<rparr>)\<rparr>,
      (let l = newUpdate_of 10 (observed v) point_route \<lparr>Pred_VehicleID = v, Pred_Point = \<lparr>Latitude = Fin 0, Longitude = Fin 0\<rparr>,
                  Pred_Index = 0, Pred_Angle = Fin 0\<rparr>;
           fx5 = fx\<lparr>created := created fx @ [(l, create l)]\<rparr>
       in if create l \<noteq> None then log_error ''could not create location for prediction'' fx5 else fx5)))"
  apply (subst predictVehiclePosition_returns[where vehicle="\<lparr>Vehicle_ID = v\<rparr>" and update="observed v" and routeID=1 and route=point_route, OF _ _ _ _ example_prediction])
  apply (simp_all add: example_service_def observed_def Let_def)
  done


lemma predictVehiclePosition_Inr_effects:
  assumes "predictVehiclePosition ms now vehicleID (stm, fx) = Some (Inr (stm', fx'))"
  shows "updates stm' = updates stm \<and> vehicleIDs stm' = vehicleIDs stm
       \<and> subscribers stm' = subscribers stm \<and> delivered fx' = delivered fx
       \<and> (\<exists>l. created fx' = created fx @ [(l, ms_CreateLocation ms l)]
              \<and> Loc_VehicleID l = None \<and> Loc_Created l = 0 \<and> Loc_ID l = 0
              \<and> Loc_Time l = now \<and> Loc_RouteID l \<noteq> None)"
  using assms
  by (auto simp: predictVehiclePosition_def Let_def log_error_def newUpdate_of_def
           split: option.splits sum.splits if_splits)

lemma predictVehiclePosition_Inl_effects:
  assumes "predictVehiclePosition ms now vehicleID (stm, fx) = Some (Inl (p, fx'))"
  shows "delivered fx' = delivered fx \<and> created fx' = created fx"
  using assms
  by (auto simp: predictVehiclePosition_def Let_def log_error_def
           split: option.splits sum.splits if_splits)

lemma predict_vehicles_effects:
  "predict_vehicles ms now ids (stm, fx) = Some r \<Longrightarrow>
   delivered (outcome_effects r) = delivered fx
   \<and> (\<exists>new. created (outcome_effects r) = created fx @ new
        \<and> (\<forall>le\<in>set new. Loc_VehicleID (fst le) = None \<and> Loc_Created (fst le) = 0
               \<and> Loc_ID (fst le) = 0 \<and> Loc_Time (fst le) = now \<and> Loc_RouteID (fst le) \<noteq> None))"
proof (induction ids arbitrary: stm fx)
  case Nil
  then show ?case by (auto simp: outcome_effects_def)
next
  case (Cons vehicleID rest)
  show ?case
  proof (cases "predictVehiclePosition ms now vehicleID (stm, fx)")
    case None
    with Cons.prems show ?thesis by simp
  next
    case (Some r1)
    show ?thesis
    proof (cases r1)
      case (Inl pf)
      with Some Cons.prems have r: "r = Inl pf" by simp
      from Some Inl predictVehiclePosition_Inl_effects[of ms now vehicleID stm fx "fst pf" "snd pf"]
      have "delivered (snd pf) = delivered fx \<and> created (snd pf) = created fx" by simp
      then show ?thesis unfolding r by (simp add: outcome_effects_def)
    next
      case (Inr s1)
      obtain stm1 fx1 where s1: "s1 = (stm1, fx1)" by (cases s1)
      from Some Inr s1 Cons.prems have rest: "predict_vehicles ms now rest (stm1, fx1) = Some r"
        by simp
      from Some Inr s1 predictVehiclePosition_Inr_effects[of ms now vehicleID stm fx stm1 fx1]
      obtain l where a: "delivered fx1 = delivered fx"
        "created fx1 = created fx @ [(l, ms_CreateLocation ms l)]"
        "Loc_VehicleID l = None \<and> Loc_Created l = 0 \<and> Loc_ID l = 0
              \<and> Loc_Time l = now \<and> Loc_RouteID l \<noteq> None"
        by auto
      from Cons.IH[OF rest] obtain new where b: "delivered (outcome_effects r) = delivered fx1"
        "created (outcome_effects r) = created fx1 @ new"
        "\<forall>le\<in>set new. Loc_VehicleID (fst le) = None \<and> Loc_Created (fst le) = 0
               \<and> Loc_ID (fst le) = 0 \<and> Loc_Time (fst le) = now \<and> Loc_RouteID (fst le) \<noteq> None"
        by auto
      have "created (outcome_effects r) = created fx @ ((l, ms_CreateLocation ms l) # new)"
        using a b by simp
      moreover have "\<forall>le\<in>set ((l, ms_CreateLocation ms l) # new).
          Loc_VehicleID (fst le) = None \<and> Loc_Created (fst le) = 0
               \<and> Loc_ID (fst le) = 0 \<and> Loc_Time (fst le) = now \<and> Loc_RouteID (fst le) \<noteq> None"
        using a b by simp
      ultimately show ?thesis using a b by metis
    qed
  qed
qed

lemma example_tick:
  "tick (example_service create) 10 (active_manager, no_effects) =
     Some (Inr (active_manager\<lparr>predictions :=
          [1 \<mapsto> \<lparr>Pred_VehicleID = 1, Pred_Point = \<lparr>Latitude = Fin 0, Longitude = Fin 0\<rparr>,
                  Pred_Index = 0, Pred_Angle = Fin 0\<rparr>,
           2 \<mapsto> \<lparr>Pred_VehicleID = 2, Pred_Point = \<lparr>Latitude = Fin 0, Longitude = Fin 0\<rparr>,
                  Pred_Index = 0, Pred_Angle = Fin 0\<rparr>]\<rparr>,
        (let l = \<lparr>Loc_ID = 0, Loc_TrackerID = ''tracker'', Loc_Latitude = Fin 0, Loc_Longitude = Fin 0,
                  Loc_Heading = Fin 90, Loc_Speed = Fin 0, Loc_Time = 10, Loc_Created = 0,
                  Loc_VehicleID = None, Loc_RouteID = Some 1\<rparr>
         in \<lparr>logged = (if create l \<noteq> None
                        then [''could not create location for prediction'',
                              ''could not create location for prediction'']
                        else []),
             created = [(l, create l), (l, create l)],
             delivered = []\<rparr>)))"
  by (simp add: tick_def active_manager_fields example_pvp newUpdate_of_def observed_def
        point_route_def no_effects_def log_error_def Let_def)


lemma Run_ticks_effects:
  "Run_ticks ticks (stm, fx) = Some r \<Longrightarrow> delivered (outcome_effects r) = delivered fx"
proof (induction ticks arbitrary: stm fx)
  case Nil
  then show ?case by (auto simp: outcome_effects_def)
next
  case (Cons t later)
  show ?case
  proof (cases "tick (fst t) (snd t) (stm, fx)")
    case None
    with Cons.prems show ?thesis by simp
  next
    case (Some r1)
    from Some predict_vehicles_effects[of "fst t" "snd t" "vehicleIDs stm" stm fx r1]
    have d1: "delivered (outcome_effects r1) = delivered fx" by (simp add: tick_def)
    show ?thesis
    proof (cases r1)
      case (Inl pf)
      with Some Cons.prems have "r = r1" by simp
      with d1 show ?thesis by simp
    next
      case (Inr s1)
      obtain stm1 fx1 where s1: "s1 = (stm1, fx1)" by (cases s1)
      from Some Inr s1 Cons.prems have "Run_ticks later (stm1, fx1) = Some r" by simp
      from Cons.IH[OF this] d1 Inr s1 show ?thesis by (simp add: outcome_effects_def)
    qed
  qed
qed

text \<open>
  Claim C2 says that every prediction produced on a tick of \<open>Run\<close> is handed to every
  registered subscriber. The code does not do it: \<open>predictVehiclePosition\<close> stores the
  prediction in the cache and calls nobody, so that no run of any number of ticks calls a
  subscriber (first part). With subscriber 0 registered before the first tick and vehicles
  1 and 2 active, a tick produces and caches the prediction of vehicle 1, stores two
  locations, and no subscriber is called (second part); \<open>handleNewPrediction\<close>, which
  nothing calls, is the function that would call subscriber 0 (third part).
\<close>

theorem Run_calls_no_subscriber:
  "(Run ticks (stm, fx) = None
      \<or> (\<exists>r. Run ticks (stm, fx) = Some r \<and> delivered (outcome_effects r) = delivered fx))
   \<and> (\<exists>stm' fx'. Run [(example_service (\<lambda>l. None), 10)] (active_manager, no_effects)
                      = Some (Inr (stm', fx'))
          \<and> subscribers stm' = [0]
          \<and> predictions stm' 1
               = Some \<lparr>Pred_VehicleID = 1, Pred_Point = \<lparr>Latitude = Fin 0, Longitude = Fin 0\<rparr>,
                        Pred_Index = 0, Pred_Angle = Fin 0\<rparr>
          \<and> map snd (created fx') = [None, None]
          \<and> delivered fx' = [])
   \<and> delivered (snd (handleNewPrediction p (active_manager, no_effects))) = [(0, p)]"
proof (intro conjI)
  show "Run ticks (stm, fx) = None
      \<or> (\<exists>r. Run ticks (stm, fx) = Some r \<and> delivered (outcome_effects r) = delivered fx)"
  proof (cases "Run ticks (stm, fx)")
    case None
    then show ?thesis by simp
  next
    case (Some r)
    show ?thesis
    proof (cases "predictUpdates stm")
      case True
      with Some have "Run_ticks ticks (stm, fx) = Some r" by (simp add: Run_def)
      from Run_ticks_effects[OF this] Some show ?thesis by simp
    next
      case False
      with Some show ?thesis by (auto simp: Run_def outcome_effects_def)
    qed
  qed
next
  show "\<exists>stm' fx'. Run [(example_service (\<lambda>l. None), 10)] (active_manager, no_effects)
                      = Some (Inr (stm', fx'))
          \<and> subscribers stm' = [0]
          \<and> predictions stm' 1
               = Some \<lparr>Pred_VehicleID = 1, Pred_Point = \<lparr>Latitude = Fin 0, Longitude = Fin 0\<rparr>,
                        Pred_Index = 0, Pred_Angle = Fin 0\<rparr>
          \<and> map snd (created fx') = [None, None]
          \<and> delivered fx' = []"
    by (simp add: Run_def example_tick active_manager_fields Let_def)
next
  show "delivered (snd (handleNewPrediction p (active_manager, no_effects))) = [(0, p)]"
    by (simp add: handleNewPrediction_def active_manager_fields no_effects_def)
qed

text \<open>
  Claim C4 says that when the vehicle, its last location or its route cannot be resolved, or
  the location has no route id, \<open>predictVehiclePosition\<close> only reports it and never crashes.
  The code reports it and then goes on to dereference the nil pointer: in each of the four
  cases the call ends in a panic right after the error line, and a tick whose first vehicle
  cannot be resolved ends there, before the second vehicle.
\<close>

theorem predictVehiclePosition_nil_dereference:
  "predictVehiclePosition (ms\<lparr>ms_Vehicle := \<lambda>i. (None, Some e)\<rparr>) now vehicleID (stm, fx)
     = Some (Inl (NilDereference, log_error ''cannot get vehicle for prediction'' fx))
   \<and> predictVehiclePosition (example_service create) now vehicleID
        (stm\<lparr>updates := Map.empty\<rparr>, fx)
     = Some (Inl (NilDereference, log_error ''no prior update for vehicle'' fx))
   \<and> predictVehiclePosition (example_service create) now vehicleID
        (stm\<lparr>updates := [vehicleID \<mapsto> (observed vehicleID)\<lparr>Loc_RouteID := None\<rparr>]\<rparr>, fx)
     = Some (Inl (NilDereference, log_error ''no route for vehicle'' fx))
   \<and> predictVehiclePosition ((example_service create)\<lparr>ms_Route := \<lambda>i. (None, Some e)\<rparr>) now
        vehicleID (stm\<lparr>updates := [vehicleID \<mapsto> observed vehicleID]\<rparr>, fx)
     = Some (Inl (NilDereference, log_error ''cannot get route for prediction'' fx))
   \<and> tick ((example_service create)\<lparr>ms_Vehicle := \<lambda>i. (None, Some e)\<rparr>) 10
        (active_manager, no_effects)
     = Some (Inl (NilDereference, log_error ''cannot get vehicle for prediction'' no_effects))"
  by (simp add: predictVehiclePosition_def example_service_def observed_def tick_def
        active_manager_fields Let_def)

text \<open>
  Claim C5, as stated: when persisting the derived location fails, the prediction is not
  written to the cache and no further vehicle is processed on that tick. It fails: with a
  model service that refuses every location, the tick over vehicles 1 and 2 returns with
  both predictions in the cache, after two calls of \<open>CreateLocation\<close> and two error lines.
\<close>

theorem tick_caches_and_continues_after_failed_create:
  "\<exists>stm' fx'. tick (example_service (\<lambda>l. Some ''database is down'')) 10 (active_manager, no_effects)
                 = Some (Inr (stm', fx'))
     \<and> predictions stm' 1
          = Some \<lparr>Pred_VehicleID = 1, Pred_Point = \<lparr>Latitude = Fin 0, Longitude = Fin 0\<rparr>,
                   Pred_Index = 0, Pred_Angle = Fin 0\<rparr>
     \<and> predictions stm' 2
          = Some \<lparr>Pred_VehicleID = 2, Pred_Point = \<lparr>Latitude = Fin 0, Longitude = Fin 0\<rparr>,
                   Pred_Index = 0, Pred_Angle = Fin 0\<rparr>
     \<and> map snd (created fx') = [Some ''database is down'', Some ''database is down'']
     \<and> logged fx' = [''could not create location for prediction'',
                      ''could not create location for prediction'']"
  by (simp add: example_tick Let_def)

text \<open>
  Claim C5, amended: when persisting the derived location of a vehicle fails, the failure
  is logged, the prediction is written to the cache all the same, no subscriber is called,
  and the tick goes on with the remaining vehicles.
\<close>

theorem failed_create_is_logged_and_cached:
  assumes "fst (ms_Vehicle ms vehicleID) = Some vehicle"
    and "updates stm (Vehicle_ID vehicle) = Some update"
    and "Loc_RouteID update = Some routeID"
    and "fst (ms_Route ms routeID) = Some route"
    and "NaivePredictPosition now vehicle update route ms = Some (Inr prediction)"
    and "ms_CreateLocation ms (newUpdate_of now update route prediction) = Some e"
  shows "\<exists>fx'. predictVehiclePosition ms now vehicleID (stm, fx)
                 = Some (Inr (stm\<lparr>predictions := (predictions stm)(Vehicle_ID vehicle \<mapsto> prediction)\<rparr>,
                              fx'))
           \<and> created fx' = created fx @ [(newUpdate_of now update route prediction, Some e)]
           \<and> last (logged fx') = ''could not create location for prediction''
           \<and> delivered fx' = delivered fx
           \<and> predict_vehicles ms now (vehicleID # rest) (stm, fx)
               = predict_vehicles ms now rest
                   (stm\<lparr>predictions := (predictions stm)(Vehicle_ID vehicle \<mapsto> prediction)\<rparr>, fx')"
  using assms(6)
  by (simp add: predictVehiclePosition_returns[OF assms(1-5)] Let_def log_error_def)

text \<open>The witness: vehicle 1 of the example, with the model service that refuses every location.\<close>

theorem failed_create_is_logged_and_cached_witness:
  "\<exists>fx'. predictVehiclePosition (example_service (\<lambda>l. Some ''database is down'')) 10 1
             (active_manager, no_effects)
           = Some (Inr (active_manager\<lparr>predictions := (predictions active_manager)(1 \<mapsto>
                \<lparr>Pred_VehicleID = 1, Pred_Point = \<lparr>Latitude = Fin 0, Longitude = Fin 0\<rparr>,
                  Pred_Index = 0, Pred_Angle = Fin 0\<rparr>)\<rparr>, fx'))
       \<and> map snd (created fx') = [Some ''database is down'']
       \<and> last (logged fx') = ''could not create location for prediction''
       \<and> delivered fx' = []
       \<and> predict_vehicles (example_service (\<lambda>l. Some ''database is down'')) 10 [1, 2]
             (active_manager, no_effects)
           = predict_vehicles (example_service (\<lambda>l. Some ''database is down'')) 10 [2]
               (active_manager\<lparr>predictions := (predictions active_manager)(1 \<mapsto>
                \<lparr>Pred_VehicleID = 1, Pred_Point = \<lparr>Latitude = Fin 0, Longitude = Fin 0\<rparr>,
                  Pred_Index = 0, Pred_Angle = Fin 0\<rparr>)\<rparr>, fx')"
proof -
  let ?ms = "example_service (\<lambda>l. Some ''database is down'')"
  let ?p = "\<lparr>Pred_VehicleID = 1, Pred_Point = \<lparr>Latitude = Fin 0, Longitude = Fin 0\<rparr>,
                  Pred_Index = 0, Pred_Angle = Fin 0\<rparr>"
  have h1: "fst (ms_Vehicle ?ms 1) = Some \<lparr>Vehicle_ID = 1\<rparr>" by (simp add: example_service_def)
  have h2: "updates active_manager (Vehicle_ID \<lparr>Vehicle_ID = 1\<rparr>) = Some (observed 1)"
    by (simp add: active_manager_fields)
  have h3: "Loc_RouteID (observed 1) = Some 1" by (simp add: observed_def)
  have h4: "fst (ms_Route ?ms 1) = Some point_route" by (simp add: example_service_def)
  have h5: "NaivePredictPosition 10 \<lparr>Vehicle_ID = 1\<rparr> (observed 1) point_route ?ms = Some (Inr ?p)"
    by (rule example_prediction)
  have h6: "ms_CreateLocation ?ms (newUpdate_of 10 (observed 1) point_route ?p)
              = Some ''database is down''"
    by (simp add: example_service_def)
  from failed_create_is_logged_and_cached[OF h1 h2 h3 h4 h5 h6, of no_effects "[2]"]
  show ?thesis by (auto simp: no_effects_def)
qed

subsection \<open>The replay engine\<close>

lemma spoof_skip:
  "spoof_updates sp v = None \<Longrightarrow> spoof ms now (v # rest) (sp, fx) = spoof ms now rest (sp, fx)"
  by simp

lemma spoof_fail:
  assumes "spoof_updates sp v = Some sequence"
    and "index_at sequence (spoofIndex sp v) = Some recorded"
    and "ms_CreateLocation ms (recorded\<lparr>Loc_Created := now, Loc_Time := now, Loc_ID := updateID sp\<rparr>) = Some e"
  shows "spoof ms now (v # rest) (sp, fx) =
     Inr (sp, log_error ''Could not create spoofed location for vehicle''
            (fx\<lparr>created := created fx @
               [(recorded\<lparr>Loc_Created := now, Loc_Time := now, Loc_ID := updateID sp\<rparr>, Some e)]\<rparr>))"
  using assms by (simp add: Let_def)

lemma spoof_ok:
  assumes "spoof_updates sp v = Some sequence"
    and "index_at sequence (spoofIndex sp v) = Some recorded"
    and "ms_CreateLocation ms (recorded\<lparr>Loc_Created := now, Loc_Time := now, Loc_ID := updateID sp\<rparr>) = None"
  shows "spoof ms now (v # rest) (sp, fx) =
     spoof ms now rest
       (sp\<lparr>spoofIndexes := (spoofIndexes sp)(v \<mapsto>
               (if spoofIndex sp v + 1 \<ge> int (length sequence) then 0 else spoofIndex sp v + 1)),
            updateID := updateID sp + 1\<rparr>,
        fx\<lparr>created := created fx @
               [(recorded\<lparr>Loc_Created := now, Loc_Time := now, Loc_ID := updateID sp\<rparr>, None)],
           delivered := delivered fx @
               map (\<lambda>sub. (sub, recorded\<lparr>Loc_Created := now, Loc_Time := now, Loc_ID := updateID sp\<rparr>))
                   (spoof_subscribers sp)\<rparr>)"
  using assms by (simp add: Let_def notifySubscribers_def)

lemma cursor_inv_index:
  "cursor_inv sp \<Longrightarrow> spoof_updates sp v = Some sequence \<Longrightarrow>
   index_at sequence (spoofIndex sp v) = Some (sequence ! nat (spoofIndex sp v))"
  by (simp add: cursor_inv_def index_at_def)

lemma spoofIndex_advance:
  "spoofIndex (sp\<lparr>spoofIndexes := (spoofIndexes sp)(v \<mapsto> c), updateID := u\<rparr>) w
     = (if w = v then c else spoofIndex sp w)"
  by (simp add: spoofIndex_def)

lemma cursor_inv_advance:
  assumes "cursor_inv sp" "spoof_updates sp v = Some sequence"
  shows "cursor_inv (sp\<lparr>spoofIndexes := (spoofIndexes sp)(v \<mapsto>
               (if spoofIndex sp v + 1 \<ge> int (length sequence) then 0 else spoofIndex sp v + 1)),
            updateID := u\<rparr>)"
proof -
  from assms have r: "0 \<le> spoofIndex sp v" "spoofIndex sp v < int (length sequence)"
    by (auto simp: cursor_inv_def)
  show ?thesis
    unfolding cursor_inv_def spoofIndex_advance
  proof (intro allI impI)
    fix w s2
    assume "spoof_updates (sp\<lparr>spoofIndexes := (spoofIndexes sp)(v \<mapsto>
               (if spoofIndex sp v + 1 \<ge> int (length sequence) then 0 else spoofIndex sp v + 1)),
            updateID := u\<rparr>) w = Some s2"
    then have w: "spoof_updates sp w = Some s2" by simp
    show "0 \<le> (if w = v then if int (length sequence) \<le> spoofIndex sp v + 1 then 0
                           else spoofIndex sp v + 1
                 else spoofIndex sp w)
        \<and> (if w = v then if int (length sequence) \<le> spoofIndex sp v + 1 then 0
                           else spoofIndex sp v + 1
            else spoofIndex sp w) < int (length s2)"
    proof (cases "w = v")
      case True
      with w assms(2) have "s2 = sequence" by simp
      with True r show ?thesis by auto
    next
      case False
      from assms(1) w have "0 \<le> spoofIndex sp w \<and> spoofIndex sp w < int (length s2)"
        unfolding cursor_inv_def by blast
      with False show ?thesis by simp
    qed
  qed
qed

lemma ids_fresh_fail:
  "ids_fresh sp fx \<Longrightarrow>
   ids_fresh sp (log_error line (fx\<lparr>created := created fx @ [(l, Some e)]\<rparr>))"
  by (simp add: ids_fresh_def persisted_ids_def log_error_def)

lemma ids_fresh_ok:
  "ids_fresh sp fx \<Longrightarrow>
   ids_fresh (sp\<lparr>spoofIndexes := m, updateID := updateID sp + 1\<rparr>)
     (fx\<lparr>created := created fx @ [(r\<lparr>Loc_Created := now, Loc_Time := now, Loc_ID := updateID sp\<rparr>, None)],
         delivered := d\<rparr>)"
  by (auto simp: ids_fresh_def persisted_ids_def)

lemma spoof_general:
  assumes "cursor_inv sp"
  shows "\<exists>sp' fx' new. spoof ms now order (sp, fx) = Inr (sp', fx')
      \<and> cursor_inv sp' \<and> spoof_updates sp' = spoof_updates sp
      \<and> spoof_subscribers sp' = spoof_subscribers sp
      \<and> created fx' = created fx @ new
      \<and> (\<forall>le\<in>set new. Loc_Created (fst le) = now \<and> Loc_Time (fst le) = now)
      \<and> (ids_fresh sp fx \<longrightarrow> ids_fresh sp' fx')"
  using assms
proof (induction order arbitrary: sp fx)
  case Nil
  then show ?case by simp
next
  case (Cons v rest)
  show ?case
  proof (cases "spoof_updates sp v")
    case None
    from Cons.IH[OF Cons.prems, of fx] show ?thesis by (simp only: spoof_skip[OF None])
  next
    case (Some sequence)
    let ?rec = "sequence ! nat (spoofIndex sp v)"
    let ?upd = "?rec\<lparr>Loc_Created := now, Loc_Time := now, Loc_ID := updateID sp\<rparr>"
    note ix = cursor_inv_index[OF Cons.prems Some]
    show ?thesis
    proof (cases "ms_CreateLocation ms ?upd")
      case (Some e)
      show ?thesis
        unfolding spoof_fail[OF \<open>spoof_updates sp v = Some sequence\<close> ix Some]
        using Cons.prems ids_fresh_fail[of sp fx]
        by (auto simp: log_error_def)
    next
      case None
      let ?sp1 = "sp\<lparr>spoofIndexes := (spoofIndexes sp)(v \<mapsto>
               (if spoofIndex sp v + 1 \<ge> int (length sequence) then 0 else spoofIndex sp v + 1)),
            updateID := updateID sp + 1\<rparr>"
      let ?fx1 = "fx\<lparr>created := created fx @ [(?upd, None)],
           delivered := delivered fx @ map (\<lambda>sub. (sub, ?upd)) (spoof_subscribers sp)\<rparr>"
      have inv1: "cursor_inv ?sp1"
        by (rule cursor_inv_advance[OF Cons.prems \<open>spoof_updates sp v = Some sequence\<close>])
      from Cons.IH[OF inv1, of ?fx1] obtain sp' fx' new where
        r: "spoof ms now rest (?sp1, ?fx1) = Inr (sp', fx')"
        and p: "cursor_inv sp'" "spoof_updates sp' = spoof_updates ?sp1"
          "spoof_subscribers sp' = spoof_subscribers ?sp1"
          "created fx' = created ?fx1 @ new"
          "\<forall>le\<in>set new. Loc_Created (fst le) = now \<and> Loc_Time (fst le) = now"
          "ids_fresh ?sp1 ?fx1 \<longrightarrow> ids_fresh sp' fx'"
        by blast
      have c: "created fx' = created fx @ ((?upd, None) # new)" using p(4) by simp
      have t: "\<forall>le\<in>set ((?upd, None) # new). Loc_Created (fst le) = now \<and> Loc_Time (fst le) = now"
        using p(5) by simp
      have f: "ids_fresh sp fx \<longrightarrow> ids_fresh sp' fx'"
        using p(6) ids_fresh_ok[of sp fx] by blast
      show ?thesis
        unfolding spoof_ok[OF \<open>spoof_updates sp v = Some sequence\<close> ix None] r
        using p(1,2,3) c t f by (intro exI[of _ sp'] exI[of _ fx'] exI[of _ "(?upd, None) # new"]) simp
    qed
  qed
qed


lemma wrap_is_mod:
  "0 \<le> i \<Longrightarrow> i < n \<Longrightarrow> (if i + 1 \<ge> n then 0 else i + 1) = (i + 1) mod (n::int)"
proof (cases "i + 1 \<ge> n")
  case True
  assume "0 \<le> i" "i < n"
  with True have "i + 1 = n" by linarith
  then show ?thesis using True by simp
next
  case False
  assume "0 \<le> i" "i < n"
  with False show ?thesis by simp
qed

lemma spoof_cursor:
  assumes "cursor_inv sp" and "distinct order"
    and "spoof ms now order (sp, fx) = Inr (sp', fx')"
    and "spoof_updates sp v = Some sequence"
  shows "(v \<notin> set order \<longrightarrow> spoofIndex sp' v = spoofIndex sp v)
       \<and> (spoofIndex sp' v = spoofIndex sp v
            \<or> spoofIndex sp' v = (spoofIndex sp v + 1) mod int (length sequence))
       \<and> ((\<forall>l. ms_CreateLocation ms l = None) \<and> v \<in> set order
            \<longrightarrow> spoofIndex sp' v = (spoofIndex sp v + 1) mod int (length sequence))"
  using assms
proof (induction order arbitrary: sp fx)
  case Nil
  then show ?case by simp
next
  case (Cons w rest)
  from Cons.prems(2) have dr: "distinct rest" and wr: "w \<notin> set rest" by simp_all
  show ?case
  proof (cases "spoof_updates sp w")
    case None
    with Cons.prems(4) have ne: "w \<noteq> v" by auto
    from Cons.prems(3) have "spoof ms now rest (sp, fx) = Inr (sp', fx')"
      by (simp only: spoof_skip[OF None])
    from Cons.IH[OF Cons.prems(1) dr this Cons.prems(4)] ne show ?thesis by auto
  next
    case (Some s2)
    let ?rec = "s2 ! nat (spoofIndex sp w)"
    let ?upd = "?rec\<lparr>Loc_Created := now, Loc_Time := now, Loc_ID := updateID sp\<rparr>"
    note ix = cursor_inv_index[OF Cons.prems(1) Some]
    show ?thesis
    proof (cases "ms_CreateLocation ms ?upd")
      case (Some e)
      from Cons.prems(3) have "sp' = sp"
        by (simp only: spoof_fail[OF \<open>spoof_updates sp w = Some s2\<close> ix Some]) simp
      with Some show ?thesis by auto
    next
      case None
      let ?sp1 = "sp\<lparr>spoofIndexes := (spoofIndexes sp)(w \<mapsto>
               (if spoofIndex sp w + 1 \<ge> int (length s2) then 0 else spoofIndex sp w + 1)),
            updateID := updateID sp + 1\<rparr>"
      let ?fx1 = "fx\<lparr>created := created fx @ [(?upd, None)],
           delivered := delivered fx @ map (\<lambda>sub. (sub, ?upd)) (spoof_subscribers sp)\<rparr>"
      have inv1: "cursor_inv ?sp1"
        by (rule cursor_inv_advance[OF Cons.prems(1) \<open>spoof_updates sp w = Some s2\<close>])
      from Cons.prems(3) have r: "spoof ms now rest (?sp1, ?fx1) = Inr (sp', fx')"
        by (simp only: spoof_ok[OF \<open>spoof_updates sp w = Some s2\<close> ix None])
      have u1: "spoof_updates ?sp1 v = Some sequence" using Cons.prems(4) by simp
      note ih = Cons.IH[OF inv1 dr r u1]
      show ?thesis
      proof (cases "w = v")
        case True
        with Cons.prems(4) \<open>spoof_updates sp w = Some s2\<close> have s2: "s2 = sequence" by simp
        from Cons.prems(1,4) have rg: "0 \<le> spoofIndex sp v" "spoofIndex sp v < int (length sequence)"
          by (auto simp: cursor_inv_def)
        have "spoofIndex ?sp1 v = (if spoofIndex sp v + 1 \<ge> int (length sequence) then 0
                                    else spoofIndex sp v + 1)"
          using True s2 by (simp add: spoofIndex_advance)
        then have "spoofIndex ?sp1 v = (spoofIndex sp v + 1) mod int (length sequence)"
          by (simp only: wrap_is_mod[OF rg])
        moreover from ih wr True have "spoofIndex sp' v = spoofIndex ?sp1 v" by blast
        ultimately show ?thesis using True by simp
      next
        case False
        then have "spoofIndex ?sp1 v = spoofIndex sp v" by (simp add: spoofIndex_advance)
        with ih False show ?thesis by auto
      qed
    qed
  qed
qed

lemma spoof_steps_cursor:
  assumes "cursor_inv sp" and "spoof_updates sp v = Some sequence"
    and "\<forall>step\<in>set steps. (\<forall>l. ms_CreateLocation (fst step) l = None)
           \<and> distinct (snd (snd step)) \<and> v \<in> set (snd (snd step))"
  shows "\<exists>sp' fx'. spoof_steps steps (sp, fx) = Inr (sp', fx')
           \<and> cursor_inv sp' \<and> spoof_updates sp' = spoof_updates sp
           \<and> spoofIndex sp' v = (spoofIndex sp v + int (length steps)) mod int (length sequence)"
  using assms
proof (induction steps arbitrary: sp fx)
  case Nil
  then have "0 \<le> spoofIndex sp v" "spoofIndex sp v < int (length sequence)"
    by (auto simp: cursor_inv_def)
  with Nil show ?case by simp
next
  case (Cons step later)
  obtain ms now order where st: "step = (ms, now, order)" by (cases step) auto
  from Cons.prems(3) st have ok: "\<forall>l. ms_CreateLocation ms l = None" "distinct order" "v \<in> set order"
    by auto
  from spoof_general[OF Cons.prems(1), of ms now order fx] obtain sp1 fx1 where
    r: "spoof ms now order (sp, fx) = Inr (sp1, fx1)" and inv1: "cursor_inv sp1"
    and u1: "spoof_updates sp1 = spoof_updates sp" by blast
  from spoof_cursor[OF Cons.prems(1) ok(2) r Cons.prems(2)] ok
  have c1: "spoofIndex sp1 v = (spoofIndex sp v + 1) mod int (length sequence)" by blast
  have u1v: "spoof_updates sp1 v = Some sequence" using u1 Cons.prems(2) by simp
  have later: "\<forall>step\<in>set later. (\<forall>l. ms_CreateLocation (fst step) l = None)
           \<and> distinct (snd (snd step)) \<and> v \<in> set (snd (snd step))"
    using Cons.prems(3) by simp
  from Cons.IH[OF inv1 u1v later, of fx1] obtain sp' fx' where
    r2: "spoof_steps later (sp1, fx1) = Inr (sp', fx')" and p: "cursor_inv sp'"
      "spoof_updates sp' = spoof_updates sp1"
      "spoofIndex sp' v = (spoofIndex sp1 v + int (length later)) mod int (length sequence)"
    by blast
  have "spoofIndex sp' v = (spoofIndex sp v + int (length (step # later))) mod int (length sequence)"
    unfolding p(3) c1 by (simp add: mod_simps algebra_simps)
  moreover have "spoof_steps (step # later) (sp, fx) = Inr (sp', fx')"
    using r r2 st by simp
  ultimately show ?case using p(1,2) u1 by simp
qed

lemma parseUpdates_cursor:
  "cursor_inv (fst s) \<and> (\<forall>v sequence. spoof_updates (fst s) v = Some sequence
        \<longrightarrow> spoofIndex (fst s) v = 0 \<and> sequence \<noteq> []) \<Longrightarrow>
   cursor_inv (fst (parseUpdates files s))
   \<and> (\<forall>v sequence. spoof_updates (fst (parseUpdates files s)) v = Some sequence
        \<longrightarrow> spoofIndex (fst (parseUpdates files s)) v = 0 \<and> sequence \<noteq> [])"
proof (induction files s rule: parseUpdates.induct)
  case (1 s)
  then show ?case by simp
next
  case (2 files s)
  then show ?case by simp
next
  case (3 files s)
  then show ?case by simp
next
  case (4 first others files s)
  show ?case
  proof (cases "Loc_VehicleID first")
    case None
    with 4 show ?thesis by simp
  next
    case (Some vehicleID)
    let ?s1 = "((fst s)\<lparr>spoof_updates := (spoof_updates (fst s))(vehicleID \<mapsto> first # others),
                     spoofIndexes := (spoofIndexes (fst s))(vehicleID \<mapsto> 0)\<rparr>, snd s)"
    from "4.prems" have "cursor_inv (fst ?s1) \<and> (\<forall>v sequence. spoof_updates (fst ?s1) v = Some sequence
        \<longrightarrow> spoofIndex (fst ?s1) v = 0 \<and> sequence \<noteq> [])"
      by (auto simp: cursor_inv_def spoofIndex_def)
    from "4.IH"(2)[OF Some this] Some show ?thesis by simp
  qed
qed

lemma loaded_spoofer_fields:
  "spoof_updates loaded_spoofer =
     [1 \<mapsto> [observed 1],
      7 \<mapsto> [(observed 7)\<lparr>Loc_ID := 1\<rparr>, (observed 7)\<lparr>Loc_ID := 2\<rparr>, (observed 7)\<lparr>Loc_ID := 3\<rparr>]]"
  "spoofIndexes loaded_spoofer = [1 \<mapsto> 0, 7 \<mapsto> 0]"
  "updateID loaded_spoofer = 1"
  "spoof_subscribers loaded_spoofer = [0]"
  "SpoofUpdates loaded_spoofer = True"
  "parseUpdates example_files (Spoofer_Subscribe 0 (New True), no_effects) = (loaded_spoofer, no_effects)"
  by (simp_all add: loaded_spoofer_def example_files_def New_def Spoofer_Subscribe_def observed_def)

lemma loaded_spoofer_inv: "cursor_inv loaded_spoofer"
  by (simp add: cursor_inv_def loaded_spoofer_fields spoofIndex_def)

lemma loaded_index: "spoofIndex loaded_spoofer 1 = 0" "spoofIndex loaded_spoofer 7 = 0"
  by (simp_all add: spoofIndex_def loaded_spoofer_fields)



lemma predictVehiclePosition_Inr:
  assumes "predictVehiclePosition ms now vehicleID (stm, fx) = Some (Inr (stm', fx'))"
  shows "\<exists>vehicle update routeID route prediction.
      fst (ms_Vehicle ms vehicleID) = Some vehicle
    \<and> updates stm (Vehicle_ID vehicle) = Some update
    \<and> Loc_RouteID update = Some routeID
    \<and> fst (ms_Route ms routeID) = Some route
    \<and> NaivePredictPosition now vehicle update route ms = Some (Inr prediction)"
  using assms
  by (auto simp: predictVehiclePosition_def Let_def split: option.splits sum.splits)

text \<open>
  Claim C3, as stated: when persisting the location of vehicle A fails in a step of the
  replay engine, the step skips to the next vehicle, so that every other vehicle with a
  loaded sequence is still processed in that step. It fails: with vehicles 1 and 7 loaded,
  visited in this order, and a model service that refuses the location of vehicle 1, the
  step ends after the one call for vehicle 1; vehicle 7 is not processed (no call of
  \<open>CreateLocation\<close> for it, its cursor still 0, no subscriber called).
\<close>

theorem spoof_stops_at_failed_create_example:
  "\<exists>s' fx'. spoof (example_service (refuse_vehicle 1)) 10 [1, 7] (loaded_spoofer, no_effects)
                = Inr (s', fx')
      \<and> spoof_updates s' 7 \<noteq> None \<and> spoofIndex s' 7 = 0 \<and> updateID s' = 1
      \<and> map (\<lambda>le. Loc_VehicleID (fst le)) (created fx') = [Some 1]
      \<and> map snd (created fx') = [Some ''database is down'']
      \<and> logged fx' = [''Could not create spoofed location for vehicle'']
      \<and> delivered fx' = []"
  by (simp add: loaded_spoofer_fields loaded_index index_at_def example_service_def
        refuse_vehicle_def observed_def no_effects_def log_error_def Let_def)

text \<open>
  Claim C3, amended: when the loop of a step reaches vehicle A and persisting its re-stamped
  location fails, the failure is logged and the step ends there: the state of the engine
  (every cursor, the id counter) stays as it is, no subscriber is notified of the location,
  and the vehicles that come after A in the order of the step are not processed in that
  step.
\<close>

theorem spoof_stops_at_failed_create:
  assumes "spoof_updates s vehicleA = Some sequence"
    and "index_at sequence (spoofIndex s vehicleA) = Some recorded"
    and "ms_CreateLocation ms (recorded\<lparr>Loc_Created := now, Loc_Time := now, Loc_ID := updateID s\<rparr>) = Some e"
  shows "spoof ms now (vehicleA # rest) (s, fx) =
     Inr (s, log_error ''Could not create spoofed location for vehicle''
            (fx\<lparr>created := created fx @
               [(recorded\<lparr>Loc_Created := now, Loc_Time := now, Loc_ID := updateID s\<rparr>, Some e)]\<rparr>))"
  using assms by (simp add: Let_def)

text \<open>The witness: the step of the example, which fails at vehicle 1 and leaves vehicle 7 out.\<close>

theorem spoof_stops_at_failed_create_witness:
  "spoof (example_service (refuse_vehicle 1)) 10 [1, 7] (loaded_spoofer, no_effects) =
     Inr (loaded_spoofer,
          \<lparr>logged = [''Could not create spoofed location for vehicle''],
           created = [((observed 1)\<lparr>Loc_Created := 10, Loc_Time := 10, Loc_ID := 1\<rparr>,
                       Some ''database is down'')],
           delivered = []\<rparr>)"
proof -
  have h1: "spoof_updates loaded_spoofer 1 = Some [observed 1]"
    by (simp add: loaded_spoofer_fields)
  have h2: "index_at [observed 1] (spoofIndex loaded_spoofer 1) = Some (observed 1)"
    by (simp add: loaded_index index_at_def)
  have h3: "ms_CreateLocation (example_service (refuse_vehicle 1))
              ((observed 1)\<lparr>Loc_Created := 10, Loc_Time := 10, Loc_ID := updateID loaded_spoofer\<rparr>)
            = Some ''database is down''"
    by (simp add: example_service_def refuse_vehicle_def observed_def)
  show ?thesis
    using spoof_stops_at_failed_create[where rest = "[7]" and fx = no_effects, OF h1 h2 h3]
    by (simp add: no_effects_def log_error_def loaded_spoofer_fields)
qed

text \<open>
  Claim C9, as stated, for every sequence of length N at least 1: the cursor is back at 0
  after N successful steps and equals 1 after N + 1. It fails for N = 1: vehicle 1 has one
  recorded location, and after two successful steps its cursor is 0, not 1.
\<close>

theorem cursor_of_single_record_example:
  "\<exists>sp' fx'. Spoofer_Run example_files
                [(example_service (\<lambda>l. None), 10, [1, 7]), (example_service (\<lambda>l. None), 20, [7, 1])]
                (Spoofer_Subscribe 0 (New True), no_effects) = Inr (sp', fx')
      \<and> spoof_updates sp' 1 = Some [observed 1]
      \<and> map snd (created fx') = [None, None, None, None]
      \<and> spoofIndex sp' 1 = 0 \<and> spoofIndex sp' 1 \<noteq> 1"
proof -
  have e: "SpoofUpdates (fst (Spoofer_Subscribe 0 (New True), no_effects)) = True"
    by (simp add: New_def Spoofer_Subscribe_def)
  have r: "Spoofer_Run example_files
                [(example_service (\<lambda>l. None), 10, [1, 7]), (example_service (\<lambda>l. None), 20, [7, 1])]
                (Spoofer_Subscribe 0 (New True), no_effects)
         = spoof_steps
                [(example_service (\<lambda>l. None), 10, [1, 7]), (example_service (\<lambda>l. None), 20, [7, 1])]
                (loaded_spoofer, no_effects)"
    unfolding Spoofer_Run_def e loaded_spoofer_fields(6) by simp
  show ?thesis
    unfolding r
    by (simp add: loaded_spoofer_fields loaded_index index_at_def
        example_service_def observed_def no_effects_def notifySubscribers_def spoofIndex_def Let_def)
qed

text \<open>
  Claim C9, amended: the cursor of every vehicle with a loaded sequence of length N (at
  least 1) always lies from 0 (included) to N (excluded): it starts at 0 after loading; a
  step never panics, keeps every cursor in range, leaves the sequences as they are, and
  either leaves a cursor or advances it by one with wraparound to 0 at the end; a step in
  which every location is stored advances the cursor of every vehicle it visits by exactly
  one. So after k such steps from 0 the cursor is k modulo N: 0 after N steps and, after
  N + 1 steps, 1 when N is at least 2 and 0 when N is 1.
\<close>

theorem replay_cursor:
  "(cursor_inv (fst (parseUpdates files (New enabled, fx0)))
      \<and> (\<forall>v sequence. spoof_updates (fst (parseUpdates files (New enabled, fx0))) v = Some sequence
            \<longrightarrow> spoofIndex (fst (parseUpdates files (New enabled, fx0))) v = 0 \<and> sequence \<noteq> []))
   \<and> (cursor_inv s \<and> distinct order
        \<longrightarrow> (\<exists>s' fx'. spoof ms now order (s, fx) = Inr (s', fx')
               \<and> cursor_inv s' \<and> spoof_updates s' = spoof_updates s
               \<and> (\<forall>v sequence. spoof_updates s v = Some sequence
                     \<longrightarrow> (spoofIndex s' v = spoofIndex s v
                            \<or> spoofIndex s' v = (spoofIndex s v + 1) mod int (length sequence))
                         \<and> ((\<forall>l. ms_CreateLocation ms l = None) \<and> v \<in> set order
                              \<longrightarrow> spoofIndex s' v = (spoofIndex s v + 1) mod int (length sequence)))))
   \<and> (cursor_inv s \<and> spoof_updates s v = Some sequence \<and> spoofIndex s v = 0
        \<and> (\<forall>step\<in>set steps. (\<forall>l. ms_CreateLocation (fst step) l = None)
               \<and> distinct (snd (snd step)) \<and> v \<in> set (snd (snd step)))
        \<longrightarrow> (\<exists>s' fx'. spoof_steps steps (s, fx) = Inr (s', fx')
               \<and> spoofIndex s' v = int (length steps) mod int (length sequence)
               \<and> (length steps = length sequence \<longrightarrow> spoofIndex s' v = 0)
               \<and> (length steps = length sequence + 1
                    \<longrightarrow> spoofIndex s' v = (if length sequence = 1 then 0 else 1))))"
proof (intro conjI impI)
  have "cursor_inv (fst (New enabled, fx0))
       \<and> (\<forall>v sequence. spoof_updates (fst (New enabled, fx0)) v = Some sequence
        \<longrightarrow> spoofIndex (fst (New enabled, fx0)) v = 0 \<and> sequence \<noteq> [])"
    by (simp add: cursor_inv_def New_def)
  from parseUpdates_cursor[OF this, of files]
  show "cursor_inv (fst (parseUpdates files (New enabled, fx0)))"
    and "\<forall>v sequence. spoof_updates (fst (parseUpdates files (New enabled, fx0))) v = Some sequence
            \<longrightarrow> spoofIndex (fst (parseUpdates files (New enabled, fx0))) v = 0 \<and> sequence \<noteq> []"
    by blast+
next
  assume a: "cursor_inv s \<and> distinct order"
  from spoof_general[of s ms now order fx] a obtain s' fx' where
    r: "spoof ms now order (s, fx) = Inr (s', fx')" "cursor_inv s'" "spoof_updates s' = spoof_updates s"
    by blast
  have "\<forall>v sequence. spoof_updates s v = Some sequence
                     \<longrightarrow> (spoofIndex s' v = spoofIndex s v
                            \<or> spoofIndex s' v = (spoofIndex s v + 1) mod int (length sequence))
                         \<and> ((\<forall>l. ms_CreateLocation ms l = None) \<and> v \<in> set order
                              \<longrightarrow> spoofIndex s' v = (spoofIndex s v + 1) mod int (length sequence))"
    using spoof_cursor[of s order ms now fx s' fx'] a r(1) by blast
  with r show "\<exists>s' fx'. spoof ms now order (s, fx) = Inr (s', fx')
               \<and> cursor_inv s' \<and> spoof_updates s' = spoof_updates s
               \<and> (\<forall>v sequence. spoof_updates s v = Some sequence
                     \<longrightarrow> (spoofIndex s' v = spoofIndex s v
                            \<or> spoofIndex s' v = (spoofIndex s v + 1) mod int (length sequence))
                         \<and> ((\<forall>l. ms_CreateLocation ms l = None) \<and> v \<in> set order
                              \<longrightarrow> spoofIndex s' v = (spoofIndex s v + 1) mod int (length sequence)))"
    by blast
next
  assume a: "cursor_inv s \<and> spoof_updates s v = Some sequence \<and> spoofIndex s v = 0
        \<and> (\<forall>step\<in>set steps. (\<forall>l. ms_CreateLocation (fst step) l = None)
               \<and> distinct (snd (snd step)) \<and> v \<in> set (snd (snd step)))"
  then have inv: "cursor_inv s" and u: "spoof_updates s v = Some sequence"
    and z: "spoofIndex s v = 0"
    and st: "\<forall>step\<in>set steps. (\<forall>l. ms_CreateLocation (fst step) l = None)
               \<and> distinct (snd (snd step)) \<and> v \<in> set (snd (snd step))"
    by blast+
  from inv u have "0 \<le> spoofIndex s v \<and> spoofIndex s v < int (length sequence)"
    unfolding cursor_inv_def by blast
  then have ne: "0 < length sequence" by auto
  from spoof_steps_cursor[OF inv u st, of fx] z obtain s' fx' where
    r: "spoof_steps steps (s, fx) = Inr (s', fx')"
    and c: "spoofIndex s' v = int (length steps) mod int (length sequence)"
    by auto
  have n: "length steps = length sequence \<longrightarrow> spoofIndex s' v = 0"
    unfolding c by simp
  have n1: "length steps = length sequence + 1
                    \<longrightarrow> spoofIndex s' v = (if length sequence = 1 then 0 else 1)"
  proof
    assume l: "length steps = length sequence + 1"
    show "spoofIndex s' v = (if length sequence = 1 then 0 else 1)"
    proof (cases "length sequence = 1")
      case True
      with l c show ?thesis by simp
    next
      case False
      with ne have "1 < int (length sequence)" by linarith
      then have "1 mod int (length sequence) = 1" by simp
      with l c False show ?thesis by (simp add: mod_simps)
    qed
  qed
  from r c n n1 show "\<exists>s' fx'. spoof_steps steps (s, fx) = Inr (s', fx')
               \<and> spoofIndex s' v = int (length steps) mod int (length sequence)
               \<and> (length steps = length sequence \<longrightarrow> spoofIndex s' v = 0)
               \<and> (length steps = length sequence + 1
                    \<longrightarrow> spoofIndex s' v = (if length sequence = 1 then 0 else 1))"
    by blast
qed

text \<open>
  The witness: the cursor of vehicle 7 (three recorded locations) is 0 after loading, 1
  after one step in which its location is stored (while the cursor of vehicle 1, whose
  location is refused, stays 0), 0 after three successful steps and 1 after four.
\<close>

theorem replay_cursor_witness:
  "(cursor_inv (fst (parseUpdates example_files (New True, no_effects)))
      \<and> spoofIndex (fst (parseUpdates example_files (New True, no_effects))) 7 = 0)
   \<and> (\<exists>s' fx'. spoof (example_service (refuse_vehicle 1)) 10 [7, 1] (loaded_spoofer, no_effects)
                   = Inr (s', fx')
          \<and> cursor_inv s' \<and> spoofIndex s' 7 = 1 \<and> spoofIndex s' 1 = 0)
   \<and> (\<exists>s' fx'. spoof_steps [(example_service (\<lambda>l. None), 10, [1, 7]),
                               (example_service (\<lambda>l. None), 20, [7, 1]),
                               (example_service (\<lambda>l. None), 30, [1, 7])]
                   (loaded_spoofer, no_effects) = Inr (s', fx')
          \<and> spoofIndex s' 7 = 0)
   \<and> (\<exists>s' fx'. spoof_steps [(example_service (\<lambda>l. None), 10, [1, 7]),
                               (example_service (\<lambda>l. None), 20, [7, 1]),
                               (example_service (\<lambda>l. None), 30, [1, 7]),
                               (example_service (\<lambda>l. None), 40, [7, 1])]
                   (loaded_spoofer, no_effects) = Inr (s', fx')
          \<and> spoofIndex s' 7 = 1)"
proof (intro conjI)
  let ?seq = "[(observed 7)\<lparr>Loc_ID := 1\<rparr>, (observed 7)\<lparr>Loc_ID := 2\<rparr>, (observed 7)\<lparr>Loc_ID := 3\<rparr>]"
  let ?ok = "example_service (\<lambda>l. None)"
  let ?s3 = "[(?ok, 10::int, [1, 7::int]), (?ok, 20, [7, 1]), (?ok, 30, [1, 7])]"
  let ?s4 = "[(?ok, 10::int, [1, 7::int]), (?ok, 20, [7, 1]), (?ok, 30, [1, 7]), (?ok, 40, [7, 1])]"
  note t1 = replay_cursor[where files = example_files and enabled = True and fx0 = no_effects,
      THEN conjunct1]
  from t1 show "cursor_inv (fst (parseUpdates example_files (New True, no_effects)))" by blast
  have u7: "spoof_updates (fst (parseUpdates example_files (New True, no_effects))) 7 = Some ?seq"
    by (simp add: example_files_def New_def observed_def)
  from t1 u7 show "spoofIndex (fst (parseUpdates example_files (New True, no_effects))) 7 = 0"
    by blast
  have l7: "spoof_updates loaded_spoofer 7 = Some ?seq" by (simp add: loaded_spoofer_fields)
  have l1: "spoof_updates loaded_spoofer 1 = Some [observed 1]" by (simp add: loaded_spoofer_fields)
  have h2: "cursor_inv loaded_spoofer \<and> distinct [7, 1::int]" by (simp add: loaded_spoofer_inv)
  from replay_cursor[where s = loaded_spoofer and order = "[7, 1]" and now = 10 and fx = no_effects
      and ms = "example_service (refuse_vehicle 1)", THEN conjunct2, THEN conjunct1, THEN mp, OF h2]
  obtain s' fx' where r: "spoof (example_service (refuse_vehicle 1)) 10 [7, 1]
        (loaded_spoofer, no_effects) = Inr (s', fx')" and i: "cursor_inv s'"
    by blast
  have ev: "spoofIndex (fst (projr (spoof (example_service (refuse_vehicle 1)) 10 [7, 1]
        (loaded_spoofer, no_effects)))) 7 = 1
      \<and> spoofIndex (fst (projr (spoof (example_service (refuse_vehicle 1)) 10 [7, 1]
        (loaded_spoofer, no_effects)))) 1 = 0"
    by (simp add: loaded_spoofer_fields loaded_index index_at_def example_service_def
        refuse_vehicle_def observed_def no_effects_def notifySubscribers_def spoofIndex_def
        log_error_def Let_def)
  from r i ev show "\<exists>s' fx'. spoof (example_service (refuse_vehicle 1)) 10 [7, 1]
        (loaded_spoofer, no_effects) = Inr (s', fx')
          \<and> cursor_inv s' \<and> spoofIndex s' 7 = 1 \<and> spoofIndex s' 1 = 0"
    by (intro exI[of _ s'] exI[of _ fx']) simp
  have ok: "\<forall>l. ms_CreateLocation ?ok l = None" by (simp add: example_service_def)
  have h3: "cursor_inv loaded_spoofer \<and> spoof_updates loaded_spoofer 7 = Some ?seq
        \<and> spoofIndex loaded_spoofer 7 = 0
        \<and> (\<forall>step\<in>set ?s3. (\<forall>l. ms_CreateLocation (fst step) l = None)
               \<and> distinct (snd (snd step)) \<and> 7 \<in> set (snd (snd step)))"
    using ok by (simp add: loaded_spoofer_inv l7 loaded_index)
  from replay_cursor[where s = loaded_spoofer and v = 7 and sequence = ?seq and steps = ?s3
      and fx = no_effects, THEN conjunct2, THEN conjunct2, THEN mp, OF h3]
  show "\<exists>s' fx'. spoof_steps ?s3 (loaded_spoofer, no_effects) = Inr (s', fx') \<and> spoofIndex s' 7 = 0"
    by auto
  have h4: "cursor_inv loaded_spoofer \<and> spoof_updates loaded_spoofer 7 = Some ?seq
        \<and> spoofIndex loaded_spoofer 7 = 0
        \<and> (\<forall>step\<in>set ?s4. (\<forall>l. ms_CreateLocation (fst step) l = None)
               \<and> distinct (snd (snd step)) \<and> 7 \<in> set (snd (snd step)))"
    using ok by (simp add: loaded_spoofer_inv l7 loaded_index)
  from replay_cursor[where s = loaded_spoofer and v = 7 and sequence = ?seq and steps = ?s4
      and fx = no_effects, THEN conjunct2, THEN conjunct2, THEN mp, OF h4]
  show "\<exists>s' fx'. spoof_steps ?s4 (loaded_spoofer, no_effects) = Inr (s', fx') \<and> spoofIndex s' 7 = 1"
    by auto
qed




text \<open>
  Claim C10: every derived location that the tracking manager hands to \<open>CreateLocation\<close>
  during a tick has no vehicle id and a creation time (and an id) left at the zero value;
  tracker id, heading and speed are copied from the last location of the vehicle, the
  coordinates are those of the prediction that is cached for it, the observation time is
  the current time and the route id is that of the route. A call that panics has handed
  nothing to \<open>CreateLocation\<close>.
\<close>

theorem derived_location_fields:
  "(predictVehiclePosition ms now vehicleID (stm, fx) = Some (Inr (stm', fx'))
      \<longrightarrow> (\<exists>vehicle update routeID route prediction l.
             fst (ms_Vehicle ms vehicleID) = Some vehicle
           \<and> updates stm (Vehicle_ID vehicle) = Some update
           \<and> Loc_RouteID update = Some routeID
           \<and> fst (ms_Route ms routeID) = Some route
           \<and> predictions stm' (Vehicle_ID vehicle) = Some prediction
           \<and> l = \<lparr>Loc_ID = 0, Loc_TrackerID = Loc_TrackerID update,
                   Loc_Latitude = Latitude (Pred_Point prediction),
                   Loc_Longitude = Longitude (Pred_Point prediction),
                   Loc_Heading = Loc_Heading update, Loc_Speed = Loc_Speed update,
                   Loc_Time = now, Loc_Created = 0, Loc_VehicleID = None,
                   Loc_RouteID = Some (Route_ID route)\<rparr>
           \<and> created fx' = created fx @ [(l, ms_CreateLocation ms l)]))
   \<and> (predictVehiclePosition ms now vehicleID (stm, fx) = Some (Inl (p, fx'))
        \<longrightarrow> created fx' = created fx)
   \<and> (tick ms now (stm, fx) = Some r
        \<longrightarrow> (\<exists>new. created (outcome_effects r) = created fx @ new
               \<and> (\<forall>le\<in>set new. Loc_VehicleID (fst le) = None \<and> Loc_Created (fst le) = 0
                      \<and> Loc_ID (fst le) = 0 \<and> Loc_Time (fst le) = now
                      \<and> Loc_RouteID (fst le) \<noteq> None)))"
proof (intro conjI impI)
  assume a: "predictVehiclePosition ms now vehicleID (stm, fx) = Some (Inr (stm', fx'))"
  from predictVehiclePosition_Inr[OF a] obtain vehicle update routeID route prediction where
    h: "fst (ms_Vehicle ms vehicleID) = Some vehicle"
       "updates stm (Vehicle_ID vehicle) = Some update"
       "Loc_RouteID update = Some routeID"
       "fst (ms_Route ms routeID) = Some route"
       "NaivePredictPosition now vehicle update route ms = Some (Inr prediction)"
    by blast
  from a have e: "stm' = stm\<lparr>predictions := (predictions stm)(Vehicle_ID vehicle \<mapsto> prediction)\<rparr>"
    and c: "created fx' = created fx @ [(newUpdate_of now update route prediction,
               ms_CreateLocation ms (newUpdate_of now update route prediction))]"
    unfolding predictVehiclePosition_returns[OF h]
    by (auto simp: Let_def log_error_def split: if_splits)
  from e have "predictions stm' (Vehicle_ID vehicle) = Some prediction" by simp
  with h c show "\<exists>vehicle update routeID route prediction l.
             fst (ms_Vehicle ms vehicleID) = Some vehicle
           \<and> updates stm (Vehicle_ID vehicle) = Some update
           \<and> Loc_RouteID update = Some routeID
           \<and> fst (ms_Route ms routeID) = Some route
           \<and> predictions stm' (Vehicle_ID vehicle) = Some prediction
           \<and> l = \<lparr>Loc_ID = 0, Loc_TrackerID = Loc_TrackerID update,
                   Loc_Latitude = Latitude (Pred_Point prediction),
                   Loc_Longitude = Longitude (Pred_Point prediction),
                   Loc_Heading = Loc_Heading update, Loc_Speed = Loc_Speed update,
                   Loc_Time = now, Loc_Created = 0, Loc_VehicleID = None,
                   Loc_RouteID = Some (Route_ID route)\<rparr>
           \<and> created fx' = created fx @ [(l, ms_CreateLocation ms l)]"
    unfolding newUpdate_of_def by blast
next
  assume "predictVehiclePosition ms now vehicleID (stm, fx) = Some (Inl (p, fx'))"
  from predictVehiclePosition_Inl_effects[OF this] show "created fx' = created fx" by blast
next
  assume "tick ms now (stm, fx) = Some r"
  then have "predict_vehicles ms now (vehicleIDs stm) (stm, fx) = Some r" by (simp add: tick_def)
  from predict_vehicles_effects[OF this]
  show "\<exists>new. created (outcome_effects r) = created fx @ new
               \<and> (\<forall>le\<in>set new. Loc_VehicleID (fst le) = None \<and> Loc_Created (fst le) = 0
                      \<and> Loc_ID (fst le) = 0 \<and> Loc_Time (fst le) = now
                      \<and> Loc_RouteID (fst le) \<noteq> None)"
    by blast
qed

text \<open>
  The witness: the location stored for vehicle 1 of the example at time 10; the call for an
  unknown vehicle, which stores nothing; and the tick over vehicles 1 and 2.
\<close>

theorem derived_location_fields_witness:
  "(\<exists>stm' fx'. predictVehiclePosition (example_service (\<lambda>l. None)) 10 1 (active_manager, no_effects)
                  = Some (Inr (stm', fx'))
       \<and> created fx' =
           [(\<lparr>Loc_ID = 0, Loc_TrackerID = ''tracker'', Loc_Latitude = Fin 0, Loc_Longitude = Fin 0,
              Loc_Heading = Fin 90, Loc_Speed = Fin 0, Loc_Time = 10, Loc_Created = 0,
              Loc_VehicleID = None, Loc_RouteID = Some 1\<rparr>, None)])
   \<and> (\<exists>fx'. predictVehiclePosition
                ((example_service (\<lambda>l. None))\<lparr>ms_Vehicle := \<lambda>i. (None, Some ''no such vehicle'')\<rparr>)
                10 1 (active_manager, no_effects) = Some (Inl (NilDereference, fx'))
       \<and> created fx' = [])
   \<and> (\<exists>r. tick (example_service (\<lambda>l. None)) 10 (active_manager, no_effects) = Some r
       \<and> map (\<lambda>le. Loc_VehicleID (fst le)) (created (outcome_effects r)) = [None, None]
       \<and> map (\<lambda>le. Loc_Created (fst le)) (created (outcome_effects r)) = [0, 0])"
proof (intro conjI)
  let ?ms = "example_service (\<lambda>l. None)"
  let ?bad = "?ms\<lparr>ms_Vehicle := \<lambda>i. (None, Some ''no such vehicle'')\<rparr>"
  have u: "updates active_manager 1 = Some (observed 1)" by (simp add: active_manager_fields)
  from example_pvp[OF u, of "\<lambda>l. None" no_effects]
  have "\<exists>stm' fx'. predictVehiclePosition ?ms 10 1 (active_manager, no_effects)
        = Some (Inr (stm', fx'))"
    by (simp add: Let_def)
  then obtain stm' fx' where r: "predictVehiclePosition ?ms 10 1 (active_manager, no_effects)
        = Some (Inr (stm', fx'))"
    by blast
  from derived_location_fields[where ms = ?ms and now = 10 and vehicleID = 1
      and stm = active_manager and fx = no_effects and stm' = stm' and fx' = fx',
      THEN conjunct1, THEN mp, OF r]
  obtain vehicle update routeID route prediction l where
    p: "fst (ms_Vehicle ?ms 1) = Some vehicle"
       "updates active_manager (Vehicle_ID vehicle) = Some update"
       "Loc_RouteID update = Some routeID"
       "fst (ms_Route ?ms routeID) = Some route"
       "predictions stm' (Vehicle_ID vehicle) = Some prediction"
       "l = \<lparr>Loc_ID = 0, Loc_TrackerID = Loc_TrackerID update,
                   Loc_Latitude = Latitude (Pred_Point prediction),
                   Loc_Longitude = Longitude (Pred_Point prediction),
                   Loc_Heading = Loc_Heading update, Loc_Speed = Loc_Speed update,
                   Loc_Time = 10, Loc_Created = 0, Loc_VehicleID = None,
                   Loc_RouteID = Some (Route_ID route)\<rparr>"
       "created fx' = created (no_effects :: Prediction Effects) @ [(l, ms_CreateLocation ?ms l)]"
    by blast
  from p(1) have v: "vehicle = \<lparr>Vehicle_ID = 1\<rparr>" by (simp add: example_service_def)
  from p(2) v have up: "update = observed 1" by (simp add: active_manager_fields)
  from p(4) have ro: "route = point_route" by (simp add: example_service_def)
  from r example_pvp[OF u, of "\<lambda>l. None" no_effects] have
    "stm' = active_manager\<lparr>predictions := (predictions active_manager)(1 \<mapsto>
        \<lparr>Pred_VehicleID = 1, Pred_Point = \<lparr>Latitude = Fin 0, Longitude = Fin 0\<rparr>,
                  Pred_Index = 0, Pred_Angle = Fin 0\<rparr>)\<rparr>"
    by (simp add: Let_def)
  with p(5) v have pr: "prediction = \<lparr>Pred_VehicleID = 1, Pred_Point = \<lparr>Latitude = Fin 0, Longitude = Fin 0\<rparr>,
                  Pred_Index = 0, Pred_Angle = Fin 0\<rparr>"
    by simp
  have "created fx' =
           [(\<lparr>Loc_ID = 0, Loc_TrackerID = ''tracker'', Loc_Latitude = Fin 0, Loc_Longitude = Fin 0,
              Loc_Heading = Fin 90, Loc_Speed = Fin 0, Loc_Time = 10, Loc_Created = 0,
              Loc_VehicleID = None, Loc_RouteID = Some 1\<rparr>, None)]"
    unfolding p(7) p(6) up ro pr
    by (simp add: no_effects_def observed_def point_route_def example_service_def)
  with r show "\<exists>stm' fx'. predictVehiclePosition ?ms 10 1 (active_manager, no_effects)
                  = Some (Inr (stm', fx'))
       \<and> created fx' =
           [(\<lparr>Loc_ID = 0, Loc_TrackerID = ''tracker'', Loc_Latitude = Fin 0, Loc_Longitude = Fin 0,
              Loc_Heading = Fin 90, Loc_Speed = Fin 0, Loc_Time = 10, Loc_Created = 0,
              Loc_VehicleID = None, Loc_RouteID = Some 1\<rparr>, None)]"
    by (intro exI[of _ stm'] exI[of _ fx']) simp
  have b: "predictVehiclePosition ?bad 10 1 (active_manager, no_effects)
      = Some (Inl (NilDereference, log_error ''cannot get vehicle for prediction'' no_effects))"
    by (simp add: predictVehiclePosition_def Let_def)
  from derived_location_fields[where ms = ?bad and now = 10 and vehicleID = 1
      and stm = active_manager and fx = no_effects and p = NilDereference
      and fx' = "log_error ''cannot get vehicle for prediction'' no_effects",
      THEN conjunct2, THEN conjunct1, THEN mp, OF b]
  have "created (log_error ''cannot get vehicle for prediction'' (no_effects :: Prediction Effects)) = []"
    by (simp add: no_effects_def)
  with b show "\<exists>fx'. predictVehiclePosition ?bad 10 1 (active_manager, no_effects)
        = Some (Inl (NilDereference, fx')) \<and> created fx' = []"
    by (intro exI[of _ "log_error ''cannot get vehicle for prediction'' no_effects"]) simp
  obtain r3 where t: "tick ?ms 10 (active_manager, no_effects) = Some r3"
    by (simp add: example_tick)
  from derived_location_fields[where ms = ?ms and now = 10 and stm = active_manager
      and fx = no_effects and r = r3, THEN conjunct2, THEN conjunct2, THEN mp, OF t]
  obtain new where n: "created (outcome_effects r3) = created (no_effects :: Prediction Effects) @ new"
    "\<forall>le\<in>set new. Loc_VehicleID (fst le) = None \<and> Loc_Created (fst le) = 0
                      \<and> Loc_ID (fst le) = 0 \<and> Loc_Time (fst le) = 10
                      \<and> Loc_RouteID (fst le) \<noteq> None"
    by blast
  from t have "length (created (outcome_effects r3)) = 2"
    by (auto simp: example_tick outcome_effects_def Let_def)
  with n have "map (\<lambda>le. Loc_VehicleID (fst le)) (created (outcome_effects r3)) = [None, None]
       \<and> map (\<lambda>le. Loc_Created (fst le)) (created (outcome_effects r3)) = [0, 0]"
    by (cases "created (outcome_effects r3)"; cases "tl (created (outcome_effects r3))")
       (auto simp: no_effects_def)
  with t show "\<exists>r. tick ?ms 10 (active_manager, no_effects) = Some r
       \<and> map (\<lambda>le. Loc_VehicleID (fst le)) (created (outcome_effects r)) = [None, None]
       \<and> map (\<lambda>le. Loc_Created (fst le)) (created (outcome_effects r)) = [0, 0]"
    by (intro exI[of _ r3]) simp
qed

end
